theory Spec2Isabelle
  imports Complex_Main
begin

section \<open>Values, errors and text\<close>

text \<open>
  The notebook's one stateful function is \<^verbatim>\<open>train(model, optimizer, loss, num_epochs)\<close>.
  A Python float is a value of \<open>pyfloat\<close>: a finite value, read as a real number (sums
  and quotients are not rounded and do not overflow), or one of the three values that
  are not finite. Python integers are naturals where the source only counts. The two
  exceptions the function's own statements can raise are values of \<open>error\<close> (the
  third is what a layer raises on an input of the wrong shape); calls into the framework
  (\<^verbatim>\<open>model(inputs)\<close>, \<^verbatim>\<open>loss(outputs, class_ids)\<close>, \<^verbatim>\<open>backward\<close>, \<^verbatim>\<open>step\<close>) are taken to return.
\<close>

datatype error = ZeroDivisionError | UnboundLocalError | RuntimeError

text \<open>
  \<^verbatim>\<open>correct = 0\<close> binds a Python int; the first
  \<^verbatim>\<open>correct += preds.eq(...).long().cpu().sum()\<close> rebinds it to a tensor.
\<close>

datatype count = PyInt nat | Tensor nat

text \<open>
  Floats, as \<^verbatim>\<open>temp_loss.item()\<close> returns them and \<^verbatim>\<open>+=\<close> adds them. On the values that
  are not finite addition follows IEEE 754: \<^verbatim>\<open>nan\<close> absorbs, and the two infinities cancel
  to \<^verbatim>\<open>nan\<close>.
\<close>

datatype pyfloat = Finite real | NaN | PosInf | NegInf

instantiation pyfloat :: comm_monoid_add
begin

definition zero_pyfloat :: pyfloat where
  "zero_pyfloat = Finite 0"

fun plus_pyfloat :: "pyfloat \<Rightarrow> pyfloat \<Rightarrow> pyfloat" where
  "plus_pyfloat (Finite a) (Finite b) = Finite (a + b)"
| "plus_pyfloat NaN y = NaN"
| "plus_pyfloat x NaN = NaN"
| "plus_pyfloat PosInf NegInf = NaN"
| "plus_pyfloat NegInf PosInf = NaN"
| "plus_pyfloat PosInf y = PosInf"
| "plus_pyfloat x PosInf = PosInf"
| "plus_pyfloat NegInf y = NegInf"
| "plus_pyfloat x NegInf = NegInf"

instance
proof standard
  fix x y z :: pyfloat
  show "x + y = y + x"
    by (cases x; cases y; simp)
  show "0 + x = x"
    by (cases x; simp add: zero_pyfloat_def)
  show "x + y + z = x + (y + z)"
    by (cases x; cases y; cases z; simp)
qed

end

text \<open>A float divided by a positive Python int.\<close>

fun float_div :: "pyfloat \<Rightarrow> nat \<Rightarrow> pyfloat" where
  "float_div (Finite a) k = Finite (a / real k)"
| "float_div x k = x"

fun count_val :: "count \<Rightarrow> nat" where
  "count_val (PyInt k) = k"
| "count_val (Tensor k) = k"

subsection \<open>The conversions \<^verbatim>\<open>%d\<close>, \<^verbatim>\<open>%3d\<close>, \<^verbatim>\<open>%.3f\<close>, \<^verbatim>\<open>{:.0f}\<close>\<close>

definition digit_char :: "nat \<Rightarrow> char" where
  "digit_char d = ''0123456789'' ! d"

function dec :: "nat \<Rightarrow> string" where
  "dec n = (if n < 10 then [digit_char n] else dec (n div 10) @ [digit_char (n mod 10)])"
  by pat_completeness auto
termination
  by (relation "measure id") auto

declare dec.simps [simp del]

definition lpad :: "nat \<Rightarrow> char \<Rightarrow> string \<Rightarrow> string" where
  "lpad w c s = replicate (w - length s) c @ s"

definition round_half_even :: "real \<Rightarrow> int" where
  "round_half_even x =
     (let f = \<lfloor>x\<rfloor>; r = x - of_int f
      in if r < 1 / 2 then f else if 1 / 2 < r then f + 1 else if even f then f else f + 1)"

text \<open>
  Fixed-point conversion of a finite value with \<open>d\<close> decimals, correctly rounded (ties
  to even), sign kept: the text Python gives for a float of that exact value. The
  quotients of the model are exact, so on a decimal tie that no float equals (0.0025) the
  last digit can differ from the one the code prints.
\<close>

definition fmt_fixed :: "nat \<Rightarrow> real \<Rightarrow> string" where
  "fmt_fixed d x =
     (let s = nat (round_half_even (\<bar>x\<bar> * 10 ^ d));
          body = dec (s div 10 ^ d) @
                 (if d = 0 then [] else ''.'' @ lpad d CHR ''0'' (dec (s mod 10 ^ d)))
      in if x < 0 then ''-'' @ body else body)"

text \<open>\<^verbatim>\<open>%.3f\<close> and \<^verbatim>\<open>{:.3f}\<close> of a float: a value that is not finite is spelled out.\<close>

fun float_text :: "nat \<Rightarrow> pyfloat \<Rightarrow> string" where
  "float_text d (Finite a) = fmt_fixed d a"
| "float_text d NaN = ''nan''"
| "float_text d PosInf = ''inf''"
| "float_text d NegInf = ''-inf''"

text \<open>
  \<^verbatim>\<open>'| epoch: %d | %3d*%5d images | loss = %.3f' % (epoch + 1, batch_size, i + 1, loss_sum / 200)\<close>;
  the arguments are passed as the source computes them.
\<close>

definition train_line :: "nat \<Rightarrow> nat \<Rightarrow> nat \<Rightarrow> pyfloat \<Rightarrow> string" where
  "train_line ep bs n mean_loss =
     ''| epoch: '' @ dec ep @ '' | '' @ lpad 3 CHR '' '' (dec bs) @ ''*'' @
     lpad 5 CHR '' '' (dec n) @ '' images | loss = '' @ float_text 3 mean_loss"

text \<open>
  \<^verbatim>\<open>'\n | Test loss = {:.3f} | Test accuracy = {:.0f}% \n'.format(val_loss, ...)\<close>;
  the second argument arrives already converted (see \<open>accuracy_text\<close>).
\<close>

definition test_line :: "pyfloat \<Rightarrow> string \<Rightarrow> string" where
  "test_line val_loss acc =
     [CHR 0x0A] @ '' | Test loss = '' @ float_text 3 val_loss @
     '' | Test accuracy = '' @ acc @ ''% '' @ [CHR 0x0A]"

text \<open>
  \<^verbatim>\<open>100. * correct / len(testloader.dataset)\<close> under \<^verbatim>\<open>{:.0f}\<close>. With \<open>correct\<close> still the
  Python int, a dataset of length zero raises; with a tensor the quotient follows IEEE
  and prints \<^verbatim>\<open>nan\<close> or \<^verbatim>\<open>inf\<close>.
\<close>

definition accuracy_text :: "count \<Rightarrow> nat \<Rightarrow> error + string" where
  "accuracy_text correct n =
     (case correct of
        PyInt k \<Rightarrow>
          if n = 0 then Inl ZeroDivisionError
          else Inr (fmt_fixed 0 (100 * real k / real n))
      | Tensor k \<Rightarrow>
          if n = 0 then Inr (if k = 0 then ''nan'' else ''inf'')
          else Inr (fmt_fixed 0 (100 * real k / real n)))"

section \<open>The objects \<^verbatim>\<open>train\<close> works on\<close>

record 'x batch =
  inputs :: 'x
  class_ids :: "nat list"

text \<open>Adam's per-parameter state: \<^verbatim>\<open>state['step']\<close>, \<^verbatim>\<open>exp_avg\<close>, \<^verbatim>\<open>exp_avg_sq\<close>.\<close>

record adam_state =
  step :: nat
  exp_avg :: real
  exp_avg_sq :: real

text \<open>
  What the function reads and never rebinds. \<open>'x\<close> is the input tensor of a batch (with
  whatever randomness is drawn while it is processed), \<open>'p\<close> names a parameter of the
  model; its value is read as one real number, every operation here treating the entries
  of a parameter tensor alike.
  \<^item> the globals \<open>trainloader\<close>, \<open>testloader\<close> (the batches of the traversal made in a
    given epoch: shuffling makes them differ from epoch to epoch),
    \<open>test_dataset_len\<close> for \<^verbatim>\<open>len(testloader.dataset)\<close>, and \<open>batch_size\<close>;
  \<^item> the argument \<^verbatim>\<open>model\<close>: its \<open>parameters\<close> (all created with \<^verbatim>\<open>requires_grad\<close> set,
    which the notebook never clears) and its \<open>forward\<close> function of the mode flag, the
    parameter values and the input, returning one row of scores per example;
  \<^item> the argument \<^verbatim>\<open>loss\<close>, and \<open>gradient\<close>, the derivative of the batch loss by each
    parameter as automatic differentiation delivers it;
  \<^item> the argument \<^verbatim>\<open>optimizer\<close>: the parameters handed to \<^verbatim>\<open>optim.Adam\<close>, its learning
    rate, and whether \<^verbatim>\<open>zero_grad\<close> unsets gradients or overwrites them with zero (the
    default differs between releases of the framework).
\<close>

record ('x, 'p) env =
  trainloader :: "nat \<Rightarrow> 'x batch list"
  testloader :: "nat \<Rightarrow> 'x batch list"
  test_dataset_len :: nat
  batch_size :: nat
  parameters :: "'p list"
  forward :: "bool \<Rightarrow> ('p \<Rightarrow> real) \<Rightarrow> 'x \<Rightarrow> real list list"
  loss :: "real list list \<Rightarrow> nat list \<Rightarrow> pyfloat"
  gradient :: "bool \<Rightarrow> ('p \<Rightarrow> real) \<Rightarrow> 'x batch \<Rightarrow> 'p \<Rightarrow> real"
  opt_params :: "'p list"
  lr :: real
  set_to_none :: bool

text \<open>
  What the function mutates: the model's mode flag, every parameter's value
  (\<^verbatim>\<open>p.data\<close>) and gradient (\<^verbatim>\<open>p.grad\<close>, \<open>None\<close> while unset), the optimizer's state, the
  text printed so far (one entry per \<^verbatim>\<open>print\<close>), and the locals \<open>i\<close> (unbound until a
  loop first assigns it, and shared by both loops) and \<open>loss_sum\<close>.
\<close>

record 'p state =
  training :: bool
  data :: "'p \<Rightarrow> real"
  grad :: "'p \<Rightarrow> real option"
  adam :: "'p \<Rightarrow> adam_state option"
  out :: "string list"
  loop_i :: "nat option"
  loss_sum :: pyfloat

section \<open>The framework calls of one training step\<close>

text \<open>
  The notebook calls these three operations and does not define them; they are written
  here as the framework documents them and as the notebook's own notes put it (gradients
  accumulate over backward passes unless cleared; a parameter is kept out of training
  either by not handing it to the optimizer, which is what the notebook does, or by
  clearing its \<^verbatim>\<open>requires_grad\<close>, which it mentions and does not do). The values of the
  gradients are a parameter of the model.
\<close>

text \<open>
  Modelled from the spec: \<^verbatim>\<open>optimizer.zero_grad()\<close>, "clear accumulated gradients". It
  reaches the parameters the optimizer was built with and no other.
\<close>

definition zero_grad :: "('x, 'p) env \<Rightarrow> 'p state \<Rightarrow> 'p state" where
  "zero_grad env st =
     st\<lparr>grad := (\<lambda>p. if p \<in> set (opt_params env)
                       then (if set_to_none env then None
                             else map_option (\<lambda>_. 0) (grad st p))
                       else grad st p)\<rparr>"

text \<open>
  \<^verbatim>\<open>temp_loss.backward()\<close>: adds the batch's gradient to \<^verbatim>\<open>p.grad\<close> of every parameter of
  the model that requires a gradient, whether or not the optimizer holds it.
\<close>

definition backward :: "('x, 'p) env \<Rightarrow> 'x batch \<Rightarrow> 'p state \<Rightarrow> 'p state" where
  "backward env b st =
     st\<lparr>grad := (\<lambda>p. if p \<in> set (parameters env)
                       then Some ((case grad st p of None \<Rightarrow> 0 | Some a \<Rightarrow> a) +
                                  gradient env (training st) (data st) b p)
                       else grad st p)\<rparr>"

text \<open>
  Modelled from the spec: the update rule of \<^verbatim>\<open>optim.Adam\<close> for one parameter, with the
  defaults \<^verbatim>\<open>betas=(0.9, 0.999)\<close> and \<^verbatim>\<open>eps=1e-8\<close>: moving averages of the gradient and of its
  square, both bias-corrected, and a move against the ratio of the first to the root of
  the second plus the stabilizing constant, scaled by the learning rate. The state is
  created at the first update.
\<close>

definition adam_rule :: "real \<Rightarrow> adam_state option \<Rightarrow> real \<Rightarrow> real \<Rightarrow> adam_state \<times> real" where
  "adam_rule rate s g p =
     (let s0 = (case s of None \<Rightarrow> \<lparr>step = 0, exp_avg = 0, exp_avg_sq = 0\<rparr> | Some a \<Rightarrow> a);
          t = step s0 + 1;
          m = 9 / 10 * exp_avg s0 + (1 - 9 / 10) * g;
          v = 999 / 1000 * exp_avg_sq s0 + (1 - 999 / 1000) * g * g;
          bias_correction1 = 1 - (9 / 10) ^ t;
          bias_correction2 = 1 - (999 / 1000) ^ t;
          denom = sqrt v / sqrt bias_correction2 + 1 / 10 ^ 8;
          step_size = rate / bias_correction1
      in (\<lparr>step = t, exp_avg = m, exp_avg_sq = v\<rparr>, p - step_size * (m / denom)))"

text \<open>
  Modelled from the spec: \<^verbatim>\<open>optimizer.step()\<close>, "apply one update step", to each parameter
  the optimizer was built with that has a gradient.
\<close>

definition optimizer_step :: "('x, 'p) env \<Rightarrow> 'p state \<Rightarrow> 'p state" where
  "optimizer_step env st =
     st\<lparr>data := (\<lambda>p. if p \<in> set (opt_params env)
                       then (case grad st p of None \<Rightarrow> data st p
                             | Some g \<Rightarrow> snd (adam_rule (lr env) (adam st p) g (data st p)))
                       else data st p),
        adam := (\<lambda>p. if p \<in> set (opt_params env)
                       then (case grad st p of None \<Rightarrow> adam st p
                             | Some g \<Rightarrow> Some (fst (adam_rule (lr env) (adam st p) g (data st p))))
                       else adam st p)\<rparr>"

section \<open>The function \<^verbatim>\<open>train\<close>\<close>

text \<open>The body of the training loop at index \<open>idx\<close> of \<^verbatim>\<open>enumerate(trainloader, 0)\<close>.\<close>

definition train_batch :: "('x, 'p) env \<Rightarrow> nat \<Rightarrow> nat \<Rightarrow> 'x batch \<Rightarrow> 'p state \<Rightarrow> 'p state" where
  "train_batch env epoch idx b st =
     (let st1 = zero_grad env (st\<lparr>loop_i := Some idx\<rparr>);
          outputs = forward env (training st1) (data st1) (inputs b);
          temp_loss = loss env outputs (class_ids b);
          st2 = backward env b st1;
          st3 = optimizer_step env st2;
          s = loss_sum st3 + temp_loss
      in if idx mod 200 = 199
         then st3\<lparr>out := out st3 @
                    [train_line (epoch + 1) (batch_size env) (idx + 1) (float_div s 200)],
                  loss_sum := 0\<rparr>
         else st3\<lparr>loss_sum := s\<rparr>)"

fun train_loop :: "('x, 'p) env \<Rightarrow> nat \<Rightarrow> nat \<Rightarrow> 'x batch list \<Rightarrow> 'p state \<Rightarrow> 'p state" where
  "train_loop env epoch idx [] st = st"
| "train_loop env epoch idx (b # bs) st =
     train_loop env epoch (Suc idx) bs (train_batch env epoch idx b st)"

text \<open>
  \<^verbatim>\<open>outputs.max(1, keepdim=True)[1]\<close>: per row, the index of the first maximal score.
\<close>

fun argmax_from :: "nat \<Rightarrow> real \<Rightarrow> nat \<Rightarrow> real list \<Rightarrow> nat" where
  "argmax_from best bv k [] = best"
| "argmax_from best bv k (x # xs) =
     (if bv < x then argmax_from k x (Suc k) xs else argmax_from best bv (Suc k) xs)"

definition argmax :: "real list \<Rightarrow> nat" where
  "argmax row = (case row of [] \<Rightarrow> 0 | x # xs \<Rightarrow> argmax_from 0 x 1 xs)"

definition num_correct :: "real list list \<Rightarrow> nat list \<Rightarrow> nat" where
  "num_correct outputs ids =
     length (filter (\<lambda>(row, c). argmax row = c) (zip outputs ids))"

text \<open>
  The body of the validation loop; \<open>val_loss\<close> and \<open>correct\<close> are the two locals it
  accumulates.
\<close>

definition val_batch ::
  "('x, 'p) env \<Rightarrow> nat \<Rightarrow> 'x batch \<Rightarrow> 'p state \<times> pyfloat \<times> count \<Rightarrow> 'p state \<times> pyfloat \<times> count" where
  "val_batch env idx b acc =
     (case acc of (st, val_loss, correct) \<Rightarrow>
        let st1 = st\<lparr>loop_i := Some idx\<rparr>;
            outputs = forward env (training st1) (data st1) (inputs b);
            temp_loss = loss env outputs (class_ids b)
        in (st1, val_loss + temp_loss,
            Tensor (count_val correct + num_correct outputs (class_ids b))))"

fun val_loop ::
  "('x, 'p) env \<Rightarrow> nat \<Rightarrow> 'x batch list \<Rightarrow> 'p state \<times> pyfloat \<times> count \<Rightarrow> 'p state \<times> pyfloat \<times> count" where
  "val_loop env idx [] acc = acc"
| "val_loop env idx (b # bs) acc = val_loop env (Suc idx) bs (val_batch env idx b acc)"

text \<open>\<^verbatim>\<open>val_loss /= i\<close>, with \<open>i\<close> whatever a loop last bound it to.\<close>

definition average_val_loss :: "nat option \<Rightarrow> pyfloat \<Rightarrow> error + pyfloat" where
  "average_val_loss i val_loss =
     (case i of
        None \<Rightarrow> Inl UnboundLocalError
      | Some k \<Rightarrow> if k = 0 then Inl ZeroDivisionError else Inr (float_div val_loss k))"

text \<open>The statements after the validation loop: the text handed to \<^verbatim>\<open>print\<close>.\<close>

definition epoch_end :: "('x, 'p) env \<Rightarrow> nat option \<Rightarrow> pyfloat \<Rightarrow> count \<Rightarrow> error + string" where
  "epoch_end env i val_loss correct =
     (case average_val_loss i val_loss of
        Inl e \<Rightarrow> Inl e
      | Inr avg \<Rightarrow>
          (case accuracy_text correct (test_dataset_len env) of
             Inl e \<Rightarrow> Inl e
           | Inr acc \<Rightarrow> Inr (test_line avg acc)))"

text \<open>
  Modelled from the spec: \<^verbatim>\<open>model.train()\<close> and \<^verbatim>\<open>model.eval()\<close> set the mode flag of the
  model ("training" or "evaluation") and nothing else.
\<close>

definition set_train :: "'p state \<Rightarrow> 'p state" where
  "set_train st = st\<lparr>training := True\<rparr>"

definition set_eval :: "'p state \<Rightarrow> 'p state" where
  "set_eval st = st\<lparr>training := False\<rparr>"

text \<open>The training pass and the validation pass of one epoch.\<close>

definition train_pass :: "('x, 'p) env \<Rightarrow> nat \<Rightarrow> 'p state \<Rightarrow> 'p state" where
  "train_pass env epoch st =
     train_loop env epoch 0 (trainloader env epoch) ((set_train st)\<lparr>loss_sum := 0\<rparr>)"

definition val_pass :: "('x, 'p) env \<Rightarrow> nat \<Rightarrow> 'p state \<Rightarrow> 'p state \<times> pyfloat \<times> count" where
  "val_pass env epoch st =
     val_loop env 0 (testloader env epoch) (set_eval st, 0, PyInt 0)"

text \<open>
  One iteration of \<^verbatim>\<open>for epoch in range(num_epochs)\<close>. An exception ends the run; the
  state reached is kept beside it.
\<close>

definition run_epoch :: "('x, 'p) env \<Rightarrow> nat \<Rightarrow> 'p state \<Rightarrow> (error \<times> 'p state) + 'p state" where
  "run_epoch env epoch st =
     (case val_pass env epoch (train_pass env epoch st) of
        (st', val_loss, correct) \<Rightarrow>
          (case epoch_end env (loop_i st') val_loss correct of
             Inl e \<Rightarrow> Inl (e, st')
           | Inr line \<Rightarrow> Inr (st'\<lparr>out := out st' @ [line]\<rparr>)))"

fun train_epochs :: "('x, 'p) env \<Rightarrow> nat list \<Rightarrow> 'p state \<Rightarrow> (error \<times> 'p state) + 'p state" where
  "train_epochs env [] st = Inr st"
| "train_epochs env (epoch # es) st =
     (case run_epoch env epoch st of
        Inl x \<Rightarrow> Inl x
      | Inr st' \<Rightarrow> train_epochs env es st')"

definition train :: "('x, 'p) env \<Rightarrow> nat \<Rightarrow> 'p state \<Rightarrow> (error \<times> 'p state) + 'p state" where
  "train env num_epochs st = train_epochs env [0..<num_epochs] st"

text \<open>The state at the call: nothing printed, no local bound.\<close>

definition fresh :: "('p \<Rightarrow> real) \<Rightarrow> 'p state" where
  "fresh w =
     \<lparr>training = True, data = w, grad = (\<lambda>_. None), adam = (\<lambda>_. None), out = [],
      loop_i = None, loss_sum = 0\<rparr>"

section \<open>The two networks\<close>

text \<open>
  The layers the notebook stacks in \<^verbatim>\<open>nn.Sequential\<close> blocks:
  \<^verbatim>\<open>Conv2d(in_channels, out_channels, kernel_size)\<close> with its padding as fourth argument
  (0 unless given; stride 1), \<^verbatim>\<open>MaxPool2d(kernel_size)\<close> (stride equal to the kernel size,
  sizes rounded down), \<^verbatim>\<open>Linear(in_features, out_features)\<close>, \<^verbatim>\<open>ReLU\<close> and \<^verbatim>\<open>Dropout\<close>.
\<close>

datatype layer =
    Conv2d nat nat nat nat
  | ReLU
  | MaxPool2d nat
  | Dropout
  | Linear nat nat

text \<open>
  The shape a layer returns for a batched input of a given shape; an input it does not
  accept raises.
\<close>

fun layer_shape :: "layer \<Rightarrow> nat list \<Rightarrow> error + nat list" where
  "layer_shape (Conv2d c_in c_out k p) [b, c, h, w] =
     (if c = c_in \<and> 0 < k \<and> k \<le> h + 2 * p \<and> k \<le> w + 2 * p
      then Inr [b, c_out, h + 2 * p - k + 1, w + 2 * p - k + 1]
      else Inl RuntimeError)"
| "layer_shape (Conv2d c_in c_out k p) s = Inl RuntimeError"
| "layer_shape ReLU s = Inr s"
| "layer_shape (MaxPool2d k) [b, c, h, w] =
     (if 0 < k \<and> k \<le> h \<and> k \<le> w
      then Inr [b, c, (h - k) div k + 1, (w - k) div k + 1]
      else Inl RuntimeError)"
| "layer_shape (MaxPool2d k) s = Inl RuntimeError"
| "layer_shape Dropout s = Inr s"
| "layer_shape (Linear f_in f_out) s =
     (if s \<noteq> [] \<and> last s = f_in then Inr (butlast s @ [f_out]) else Inl RuntimeError)"

fun sequential_shape :: "layer list \<Rightarrow> nat list \<Rightarrow> error + nat list" where
  "sequential_shape [] s = Inr s"
| "sequential_shape (l # ls) s =
     (case layer_shape l s of Inl e \<Rightarrow> Inl e | Inr s' \<Rightarrow> sequential_shape ls s')"

text \<open>
  \<^verbatim>\<open>x.view(-1, m)\<close>: the elements regrouped in rows of \<open>m\<close>; the row count is inferred,
  which fails when \<open>m\<close> is zero or the element count is not a multiple of \<open>m\<close>.
\<close>

definition view_shape :: "nat \<Rightarrow> nat list \<Rightarrow> error + nat list" where
  "view_shape m s =
     (if 0 < m \<and> prod_list s mod m = 0
      then Inr [prod_list s div m, m]
      else Inl RuntimeError)"

text \<open>\<^verbatim>\<open>Net_Seq\<close>: \<open>self.convs\<close>, \<open>self.dense\<close> and the shape \<open>forward\<close> returns.\<close>

definition Net_Seq_convs :: "layer list" where
  "Net_Seq_convs =
     [Conv2d 3 16 3 0, ReLU, MaxPool2d 2,
      Conv2d 16 32 3 0, ReLU, MaxPool2d 2,
      Conv2d 32 64 3 0, ReLU, MaxPool2d 2]"

definition Net_Seq_dense :: "layer list" where
  "Net_Seq_dense = [Dropout, Linear (64 * 26 * 26) 128, ReLU, Dropout, Linear 128 10]"

definition Net_Seq_forward_shape :: "nat list \<Rightarrow> error + nat list" where
  "Net_Seq_forward_shape x =
     (case sequential_shape Net_Seq_convs x of
        Inl e \<Rightarrow> Inl e
      | Inr x1 \<Rightarrow>
          (case view_shape (64 * 26 * 26) x1 of
             Inl e \<Rightarrow> Inl e
           | Inr x2 \<Rightarrow> sequential_shape Net_Seq_dense x2))"

text \<open>
  \<^verbatim>\<open>TransferNet\<close> takes \<open>self.pretrained_layers\<close> from
  \<^verbatim>\<open>torchvision.models.vgg16(pretrained=True).features\<close>. That stack is the library's, not
  the notebook's: it is written out here as the library builds it (configuration D:
  thirteen 3x3 convolutions with padding 1, five poolings), and the network is defined
  for any stack in its place.
\<close>

definition vgg16_features :: "layer list" where
  "vgg16_features =
     [Conv2d 3 64 3 1, ReLU, Conv2d 64 64 3 1, ReLU, MaxPool2d 2,
      Conv2d 64 128 3 1, ReLU, Conv2d 128 128 3 1, ReLU, MaxPool2d 2,
      Conv2d 128 256 3 1, ReLU, Conv2d 256 256 3 1, ReLU, Conv2d 256 256 3 1, ReLU, MaxPool2d 2,
      Conv2d 256 512 3 1, ReLU, Conv2d 512 512 3 1, ReLU, Conv2d 512 512 3 1, ReLU, MaxPool2d 2,
      Conv2d 512 512 3 1, ReLU, Conv2d 512 512 3 1, ReLU, Conv2d 512 512 3 1, ReLU, MaxPool2d 2]"

definition TransferNet_dense :: "layer list" where
  "TransferNet_dense =
     [Dropout, Linear (512 * 7 * 7) 4000, ReLU, Dropout, Linear 4000 256, ReLU, Dropout,
      Linear 256 10]"

definition TransferNet_forward_shape :: "layer list \<Rightarrow> nat list \<Rightarrow> error + nat list" where
  "TransferNet_forward_shape pretrained_layers x =
     (case sequential_shape pretrained_layers x of
        Inl e \<Rightarrow> Inl e
      | Inr x1 \<Rightarrow>
          (case view_shape (512 * 7 * 7) x1 of
             Inl e \<Rightarrow> Inl e
           | Inr x2 \<Rightarrow> sequential_shape TransferNet_dense x2))"

text \<open>
  The values the networks compute. What a convolution, pooling, activation or linear
  layer computes from the parameter values \<open>w\<close> and its input is the framework's
  (\<open>apply_op\<close>, by position in the network), as is the regrouping \<open>view\<close>. A
  \<^verbatim>\<open>Dropout\<close> layer applies the random zeroing drawn for it (\<open>zeroing\<close>) in training
  mode and returns its input in evaluation mode.
\<close>

definition apply_layer ::
  "('w \<Rightarrow> nat \<Rightarrow> layer \<Rightarrow> 't \<Rightarrow> 't) \<Rightarrow> (nat \<Rightarrow> 't \<Rightarrow> 't) \<Rightarrow> bool \<Rightarrow> 'w \<Rightarrow> nat \<Rightarrow> layer \<Rightarrow> 't \<Rightarrow> 't" where
  "apply_layer apply_op zeroing mode w pos l x =
     (case l of
        Dropout \<Rightarrow> if mode then zeroing pos x else x
      | _ \<Rightarrow> apply_op w pos l x)"

fun sequential ::
  "('w \<Rightarrow> nat \<Rightarrow> layer \<Rightarrow> 't \<Rightarrow> 't) \<Rightarrow> (nat \<Rightarrow> 't \<Rightarrow> 't) \<Rightarrow> bool \<Rightarrow> 'w \<Rightarrow> nat \<Rightarrow> layer list \<Rightarrow> 't \<Rightarrow> 't" where
  "sequential apply_op zeroing mode w pos [] x = x"
| "sequential apply_op zeroing mode w pos (l # ls) x =
     sequential apply_op zeroing mode w (Suc pos) ls (apply_layer apply_op zeroing mode w pos l x)"

definition Net_Seq_forward ::
  "('w \<Rightarrow> nat \<Rightarrow> layer \<Rightarrow> 't \<Rightarrow> 't) \<Rightarrow> (nat \<Rightarrow> 't \<Rightarrow> 't) \<Rightarrow> (nat \<Rightarrow> 't \<Rightarrow> 't) \<Rightarrow> bool \<Rightarrow> 'w \<Rightarrow> 't \<Rightarrow> 't" where
  "Net_Seq_forward apply_op view zeroing mode w x =
     sequential apply_op zeroing mode w (length Net_Seq_convs) Net_Seq_dense
       (view (64 * 26 * 26) (sequential apply_op zeroing mode w 0 Net_Seq_convs x))"

definition TransferNet_forward ::
  "layer list \<Rightarrow> ('w \<Rightarrow> nat \<Rightarrow> layer \<Rightarrow> 't \<Rightarrow> 't) \<Rightarrow> (nat \<Rightarrow> 't \<Rightarrow> 't) \<Rightarrow> (nat \<Rightarrow> 't \<Rightarrow> 't) \<Rightarrow> bool \<Rightarrow> 'w \<Rightarrow> 't \<Rightarrow> 't" where
  "TransferNet_forward pretrained_layers apply_op view zeroing mode w x =
     sequential apply_op zeroing mode w (length pretrained_layers) TransferNet_dense
       (view (512 * 7 * 7) (sequential apply_op zeroing mode w 0 pretrained_layers x))"

section \<open>The fine-tuning call\<close>

text \<open>
  The parameters of a \<^verbatim>\<open>TransferNet\<close>, by position in \<^verbatim>\<open>.parameters()\<close> of its two blocks;
  every convolution and every linear layer holds a weight and a bias.
\<close>

datatype pname = Pretrained nat | Dense nat

fun num_parameters :: "layer \<Rightarrow> nat" where
  "num_parameters (Conv2d c_in c_out k p) = 2"
| "num_parameters (Linear f_in f_out) = 2"
| "num_parameters l = 0"

definition parameters_of :: "layer list \<Rightarrow> nat" where
  "parameters_of ls = sum_list (map num_parameters ls)"

definition dense_parameters :: "pname list" where
  "dense_parameters = map Dense [0..<parameters_of TransferNet_dense]"

definition TransferNet_parameters :: "layer list \<Rightarrow> pname list" where
  "TransferNet_parameters pretrained_layers =
     map Pretrained [0..<parameters_of pretrained_layers] @ dense_parameters"

text \<open>
  \<^verbatim>\<open>params = chain(fineTune.dense.parameters())\<close>,
  \<^verbatim>\<open>optimizer = optim.Adam(params, lr=0.001)\<close>, \<^verbatim>\<open>train(fineTune, optimizer, loss, ...)\<close>:
  the model is a \<^verbatim>\<open>TransferNet\<close>, the optimizer holds the dense block's parameters only.
\<close>

definition fineTune_env :: "layer list \<Rightarrow> ('x, pname) env \<Rightarrow> ('x, pname) env" where
  "fineTune_env pretrained_layers env =
     env\<lparr>parameters := TransferNet_parameters pretrained_layers,
         opt_params := dense_parameters, lr := 1 / 1000\<rparr>"

text \<open>How many times the optimizer has updated a parameter.\<close>

definition steps_taken :: "adam_state option \<Rightarrow> nat" where
  "steps_taken s = (case s of None \<Rightarrow> 0 | Some a \<Rightarrow> step a)"

text \<open>
  A loss for concrete runs: the sum of the scores of the batch, and not a number when
  that sum is negative.
\<close>

definition toy_loss :: "real list list \<Rightarrow> nat list \<Rightarrow> pyfloat" where
  "toy_loss outputs ids =
     (let s = sum_list (concat outputs) in if s < 0 then NaN else Finite s)"

text \<open>
  A small fine-tuning instance: two training and two validation batches, the loss
  above, and a gradient of 1 for every parameter.
\<close>

definition toy_base :: "(real, pname) env" where
  "toy_base =
       \<lparr>trainloader = (\<lambda>_. [\<lparr>inputs = 1, class_ids = [0]\<rparr>, \<lparr>inputs = 2, class_ids = [0]\<rparr>]),
        testloader = (\<lambda>_. [\<lparr>inputs = 1, class_ids = [0]\<rparr>, \<lparr>inputs = 2, class_ids = [0]\<rparr>]),
        test_dataset_len = 2,
        batch_size = 4,
        parameters = [],
        forward = (\<lambda>_ _ x. [ [x, 0] ]),
        loss = toy_loss,
        gradient = (\<lambda>_ _ _ _. 1),
        opt_params = [],
        lr = 0,
        set_to_none = True\<rparr>"

definition toy_fineTune :: "(real, pname) env" where
  "toy_fineTune = fineTune_env vgg16_features toy_base"

section \<open>Auxiliary notions for stating the properties\<close>

text \<open>
  The loss of one batch under given mode and parameter values, and the number of its
  examples whose predicted class is the label.
\<close>

definition temp_loss_of :: "('x, 'p) env \<Rightarrow> bool \<Rightarrow> ('p \<Rightarrow> real) \<Rightarrow> 'x batch \<Rightarrow> pyfloat" where
  "temp_loss_of env tr w b = loss env (forward env tr w (inputs b)) (class_ids b)"

definition correct_of :: "('x, 'p) env \<Rightarrow> bool \<Rightarrow> ('p \<Rightarrow> real) \<Rightarrow> 'x batch \<Rightarrow> nat" where
  "correct_of env tr w b = num_correct (forward env tr w (inputs b)) (class_ids b)"

text \<open>The values \<open>temp_loss\<close> takes along a run of the training loop, in order.\<close>

fun train_losses ::
  "('x, 'p) env \<Rightarrow> nat \<Rightarrow> nat \<Rightarrow> 'x batch list \<Rightarrow> 'p state \<Rightarrow> pyfloat list" where
  "train_losses env epoch idx [] st = []"
| "train_losses env epoch idx (b # bs) st =
     temp_loss_of env (training st) (data st) b #
     train_losses env epoch (Suc idx) bs (train_batch env epoch idx b st)"

text \<open>The mean of the \<open>k\<close>-th window of 200 consecutive losses.\<close>

definition window_mean :: "pyfloat list \<Rightarrow> nat \<Rightarrow> pyfloat" where
  "window_mean ls k = float_div (sum_list (take 200 (drop (200 * k) ls))) 200"

text \<open>Where a run of epochs stopped, and the exception that stopped it, if any.\<close>

definition final_state :: "(error \<times> 'p state) + 'p state \<Rightarrow> 'p state" where
  "final_state r = (case r of Inl (e, s) \<Rightarrow> s | Inr s \<Rightarrow> s)"

definition raised :: "(error \<times> 'p state) + 'p state \<Rightarrow> error option" where
  "raised r = (case r of Inl (e, s) \<Rightarrow> Some e | Inr s \<Rightarrow> None)"

text \<open>
  A small instance for concrete runs: every batch holds one example of class 0 whose
  input is a number, the two scores are that number and 0, and the loss is the one
  above. Parameter 1 is handed to the optimizer, parameter 0 is not.
\<close>

definition toy_env :: "real list \<Rightarrow> real list \<Rightarrow> nat \<Rightarrow> (real, nat) env" where
  "toy_env tr te n =
     \<lparr>trainloader = (\<lambda>_. map (\<lambda>x. \<lparr>inputs = x, class_ids = [0]\<rparr>) tr),
      testloader = (\<lambda>_. map (\<lambda>x. \<lparr>inputs = x, class_ids = [0]\<rparr>) te),
      test_dataset_len = n,
      batch_size = 4,
      parameters = [0, 1],
      forward = (\<lambda>_ _ x. [ [x, 0] ]),
      loss = toy_loss,
      gradient = (\<lambda>_ _ _ _. 1),
      opt_params = [1],
      lr = 1 / 1000,
      set_to_none = False\<rparr>"

section \<open>Properties\<close>

section \<open>The validation pass\<close>

lemma val_batch_eq:
  "val_batch env idx b (st, v, c) =
     (st\<lparr>loop_i := Some idx\<rparr>, v + temp_loss_of env (training st) (data st) b,
      Tensor (count_val c + correct_of env (training st) (data st) b))"
  by (simp add: val_batch_def temp_loss_of_def correct_of_def Let_def)

lemma val_loop_eq:
  "val_loop env idx bs (st, v, c) =
     (if bs = [] then (st, v, c)
      else (st\<lparr>loop_i := Some (idx + length bs - 1)\<rparr>,
            v + (\<Sum>b\<leftarrow>bs. temp_loss_of env (training st) (data st) b),
            Tensor (count_val c + (\<Sum>b\<leftarrow>bs. correct_of env (training st) (data st) b))))"
proof (induction bs arbitrary: idx st v c)
  case Nil
  show ?case by simp
next
  case (Cons b bs)
  show ?case
    by (simp add: val_batch_eq Cons.IH add.assoc)
qed

lemma val_pass_eq:
  "val_pass env epoch st =
     (if testloader env epoch = [] then (set_eval st, 0, PyInt 0)
      else ((set_eval st)\<lparr>loop_i := Some (length (testloader env epoch) - 1)\<rparr>,
            (\<Sum>b\<leftarrow>testloader env epoch. temp_loss_of env False (data st) b),
            Tensor (\<Sum>b\<leftarrow>testloader env epoch. correct_of env False (data st) b)))"
  by (simp add: val_pass_def val_loop_eq set_eval_def)

lemma replicate_small:
  "replicate 1 c = [c]" "replicate 2 c = [c, c]" "replicate 3 c = [c, c, c]"
  "replicate 4 c = [c, c, c, c]" "replicate 5 c = [c, c, c, c, c]"
  by (simp_all add: numeral_eq_Suc)

lemmas fmt_eval = fmt_fixed_def round_half_even_def lpad_def dec.simps digit_char_def
  train_line_def test_line_def replicate_small

lemma argmax_from_max:
  assumes "length pre = k" "best < k" "(pre @ xs) ! best = bv" "\<forall>x\<in>set pre. x \<le> bv"
    "\<forall>j<best. (pre @ xs) ! j < bv"
  shows "argmax_from best bv k xs < length (pre @ xs) \<and>
         (\<forall>x\<in>set (pre @ xs). x \<le> (pre @ xs) ! argmax_from best bv k xs) \<and>
         (\<forall>j<argmax_from best bv k xs. (pre @ xs) ! j < (pre @ xs) ! argmax_from best bv k xs)"
  using assms
proof (induction xs arbitrary: best bv k pre)
  case Nil
  then show ?case by auto
next
  case (Cons x xs)
  have app: "pre @ x # xs = (pre @ [x]) @ xs" by simp
  show ?case
  proof (cases "bv < x")
    case True
    have "argmax_from k x (Suc k) xs < length ((pre @ [x]) @ xs) \<and>
         (\<forall>y\<in>set ((pre @ [x]) @ xs). y \<le> ((pre @ [x]) @ xs) ! argmax_from k x (Suc k) xs) \<and>
         (\<forall>j<argmax_from k x (Suc k) xs. ((pre @ [x]) @ xs) ! j < ((pre @ [x]) @ xs) ! argmax_from k x (Suc k) xs)"
    proof (rule Cons.IH)
      show "length (pre @ [x]) = Suc k" using Cons.prems(1) by simp
      show "k < Suc k" by simp
      show "((pre @ [x]) @ xs) ! k = x" using Cons.prems(1) by (simp add: nth_append)
      show "\<forall>y\<in>set (pre @ [x]). y \<le> x" using Cons.prems(4) True by auto
      show "\<forall>j<k. ((pre @ [x]) @ xs) ! j < x"
      proof (intro allI impI)
        fix j assume "j < k"
        then have "((pre @ [x]) @ xs) ! j = pre ! j" "pre ! j \<in> set pre"
          using Cons.prems(1) by (simp_all add: nth_append)
        then show "((pre @ [x]) @ xs) ! j < x" using Cons.prems(4) True by fastforce
      qed
    qed
    with True show ?thesis by simp
  next
    case False
    have "argmax_from best bv (Suc k) xs < length ((pre @ [x]) @ xs) \<and>
         (\<forall>y\<in>set ((pre @ [x]) @ xs). y \<le> ((pre @ [x]) @ xs) ! argmax_from best bv (Suc k) xs) \<and>
         (\<forall>j<argmax_from best bv (Suc k) xs. ((pre @ [x]) @ xs) ! j < ((pre @ [x]) @ xs) ! argmax_from best bv (Suc k) xs)"
    proof (rule Cons.IH)
      show "length (pre @ [x]) = Suc k" using Cons.prems(1) by simp
      show "best < Suc k" using Cons.prems(2) by simp
      show "((pre @ [x]) @ xs) ! best = bv" using Cons.prems(3) by simp
      show "\<forall>y\<in>set (pre @ [x]). y \<le> bv" using Cons.prems(4) False by auto
      show "\<forall>j<best. ((pre @ [x]) @ xs) ! j < bv" using Cons.prems(5) by simp
    qed
    with False show ?thesis by simp
  qed
qed

lemma argmax_first_max:
  assumes "row \<noteq> []"
  shows "argmax row < length row \<and> (\<forall>x\<in>set row. x \<le> row ! argmax row) \<and>
         (\<forall>j<argmax row. row ! j < row ! argmax row)"
proof -
  obtain x xs where row: "row = x # xs" using assms by (cases row) auto
  have "argmax_from 0 x 1 xs < length ([x] @ xs) \<and>
         (\<forall>y\<in>set ([x] @ xs). y \<le> ([x] @ xs) ! argmax_from 0 x 1 xs) \<and>
         (\<forall>j<argmax_from 0 x 1 xs. ([x] @ xs) ! j < ([x] @ xs) ! argmax_from 0 x 1 xs)"
    by (rule argmax_from_max) simp_all
  then show ?thesis by (simp add: row argmax_def)
qed

lemma run_epoch_final:
  "final_state (run_epoch env epoch st) =
     (case epoch_end env (loop_i (fst (val_pass env epoch (train_pass env epoch st))))
             (fst (snd (val_pass env epoch (train_pass env epoch st))))
             (snd (snd (val_pass env epoch (train_pass env epoch st)))) of
        Inl e \<Rightarrow> fst (val_pass env epoch (train_pass env epoch st))
      | Inr line \<Rightarrow> (fst (val_pass env epoch (train_pass env epoch st)))
          \<lparr>out := out (fst (val_pass env epoch (train_pass env epoch st))) @ [line]\<rparr>)"
  by (simp add: run_epoch_def final_state_def split: prod.splits sum.splits)

lemma val_pass_frame:
  "data (fst (val_pass env epoch st)) = data st"
  "grad (fst (val_pass env epoch st)) = grad st"
  "adam (fst (val_pass env epoch st)) = adam st"
  "out (fst (val_pass env epoch st)) = out st"
  "loss_sum (fst (val_pass env epoch st)) = loss_sum st"
  "training (fst (val_pass env epoch st)) = False"
  by (simp_all add: val_pass_eq set_eval_def)

section \<open>The training pass\<close>

lemma train_batch_training [simp]: "training (train_batch env epoch idx b st) = training st"
  by (simp add: train_batch_def Let_def optimizer_step_def backward_def zero_grad_def)

lemma train_batch_loop_i [simp]: "loop_i (train_batch env epoch idx b st) = Some idx"
  by (simp add: train_batch_def Let_def optimizer_step_def backward_def zero_grad_def)

lemma train_batch_out:
  "out (train_batch env epoch idx b st) =
     (if idx mod 200 = 199
      then out st @ [train_line (epoch + 1) (batch_size env) (idx + 1)
                       (float_div (loss_sum st + temp_loss_of env (training st) (data st) b) 200)]
      else out st)"
  by (simp add: train_batch_def Let_def optimizer_step_def backward_def zero_grad_def
      temp_loss_of_def)

lemma train_batch_loss_sum:
  "loss_sum (train_batch env epoch idx b st) =
     (if idx mod 200 = 199 then 0
      else loss_sum st + temp_loss_of env (training st) (data st) b)"
  by (simp add: train_batch_def Let_def optimizer_step_def backward_def zero_grad_def
      temp_loss_of_def)

lemma train_loop_append:
  "train_loop env epoch idx (xs @ ys) st =
     train_loop env epoch (idx + length xs) ys (train_loop env epoch idx xs st)"
  by (induction xs arbitrary: idx st) simp_all

lemma train_losses_append:
  "train_losses env epoch idx (xs @ ys) st =
     train_losses env epoch idx xs st @
     train_losses env epoch (idx + length xs) ys (train_loop env epoch idx xs st)"
  by (induction xs arbitrary: idx st) simp_all

lemma length_train_losses [simp]: "length (train_losses env epoch idx bs st) = length bs"
  by (induction bs arbitrary: idx st) simp_all

lemma train_loop_training [simp]: "training (train_loop env epoch idx bs st) = training st"
  by (induction bs arbitrary: idx st) simp_all

lemma train_loop_loop_i:
  "loop_i (train_loop env epoch idx bs st) =
     (if bs = [] then loop_i st else Some (idx + length bs - 1))"
  by (induction bs arbitrary: idx st) simp_all

lemma window_step_report:
  fixes ls :: "pyfloat list"
  assumes "length ls mod 200 = 199"
  shows "sum_list (drop (200 * (length ls div 200)) ls) + l =
         sum_list (take 200 (drop (200 * (length ls div 200)) (ls @ [l])))"
proof -
  have "length (drop (200 * (length ls div 200)) ls) = 199"
    using assms by (simp add: minus_mult_div_eq_mod)
  then show ?thesis by simp
qed

lemma window_earlier:
  fixes ls :: "pyfloat list"
  assumes "k < length ls div 200"
  shows "take 200 (drop (200 * k) (ls @ [l])) = take 200 (drop (200 * k) ls)"
proof -
  have "200 * k + 200 \<le> length ls" using assms by (simp add: less_eq_div_iff_mult_less_eq)
  then show ?thesis by simp
qed

lemma div_200_step:
  fixes n :: nat
  shows "Suc n div 200 = (if n mod 200 = 199 then Suc (n div 200) else n div 200)"
  by (simp add: div_Suc mod_Suc)

lemma window_full:
  fixes n :: nat
  shows "n mod 200 = 199 \<Longrightarrow> 200 * (n div 200) + 200 = n + 1"
  using div_mult_mod_eq [of n 200] by simp

lemma window_mean_earlier:
  assumes "k < length ls div 200"
  shows "window_mean (ls @ [l]) k = window_mean ls k"
  by (simp only: window_mean_def window_earlier [OF assms])

lemma train_loop_report:
  assumes "loss_sum st = 0"
  shows "out (train_loop env epoch 0 bs st) =
           out st @ map (\<lambda>k. train_line (epoch + 1) (batch_size env) (200 * k + 200)
                              (window_mean (train_losses env epoch 0 bs st) k))
                        [0..<length bs div 200]
       \<and> loss_sum (train_loop env epoch 0 bs st) =
           sum_list (drop (200 * (length bs div 200)) (train_losses env epoch 0 bs st))"
proof (induction bs rule: rev_induct)
  case Nil
  show ?case using assms by simp
next
  case (snoc b bs)
  define s where "s = train_loop env epoch 0 bs st"
  define ls where "ls = train_losses env epoch 0 bs st"
  define l where "l = temp_loss_of env (training s) (data s) b"
  define k0 where "k0 = length bs div 200"
  have len: "length ls = length bs" by (simp add: ls_def)
  have run: "train_loop env epoch 0 (bs @ [b]) st = train_batch env epoch (length bs) b s"
    by (simp add: train_loop_append s_def)
  have losses: "train_losses env epoch 0 (bs @ [b]) st = ls @ [l]"
    by (simp add: train_losses_append s_def ls_def l_def)
  have ih_out: "out s = out st @ map (\<lambda>k. train_line (epoch + 1) (batch_size env) (200 * k + 200)
                              (window_mean ls k)) [0..<k0]"
    and ih_sum: "loss_sum s = sum_list (drop (200 * k0) ls)"
    using snoc.IH by (simp_all add: s_def ls_def k0_def)
  have earlier: "map (\<lambda>k. train_line (epoch + 1) (batch_size env) (200 * k + 200)
                              (window_mean (ls @ [l]) k)) [0..<k0]
               = map (\<lambda>k. train_line (epoch + 1) (batch_size env) (200 * k + 200)
                              (window_mean ls k)) [0..<k0]"
    by (rule map_cong) (simp_all add: window_mean_earlier k0_def len)
  show ?case
  proof (cases "length bs mod 200 = 199")
    case True
    have k1: "length (bs @ [b]) div 200 = Suc k0"
      using True by (simp add: div_200_step k0_def)
    have full: "200 * k0 + 200 = length bs + 1"
      using True by (simp only: k0_def window_full)
    have mean: "float_div (loss_sum s + l) 200 = window_mean (ls @ [l]) k0"
      using window_step_report [of ls l] True
      by (simp add: ih_sum window_mean_def k0_def len)
    have "out (train_loop env epoch 0 (bs @ [b]) st) =
            out s @ [train_line (epoch + 1) (batch_size env) (length bs + 1) (float_div (loss_sum s + l) 200)]"
      using True by (simp add: run train_batch_out l_def)
    then have "out (train_loop env epoch 0 (bs @ [b]) st) =
        out st @ map (\<lambda>k. train_line (epoch + 1) (batch_size env) (200 * k + 200)
                              (window_mean (ls @ [l]) k)) [0..<k0] @
          [train_line (epoch + 1) (batch_size env) (200 * k0 + 200) (window_mean (ls @ [l]) k0)]"
      by (simp only: ih_out earlier mean full append_assoc)
    then have o: "out (train_loop env epoch 0 (bs @ [b]) st) =
        out st @ map (\<lambda>k. train_line (epoch + 1) (batch_size env) (200 * k + 200)
                              (window_mean (ls @ [l]) k)) [0..<Suc k0]"
      by simp
    have "loss_sum (train_loop env epoch 0 (bs @ [b]) st) = 0"
      using True by (simp add: run train_batch_loss_sum)
    moreover have "drop (200 * Suc k0) (ls @ [l]) = []"
      using full by (simp add: len)
    ultimately show ?thesis
      using o by (simp only: losses k1) simp
  next
    case False
    have k1: "length (bs @ [b]) div 200 = k0"
      using False by (simp add: div_200_step k0_def)
    have le: "200 * k0 \<le> length ls"
      by (simp add: k0_def len)
    have "out (train_loop env epoch 0 (bs @ [b]) st) = out s"
      using False by (simp add: run train_batch_out)
    then have o: "out (train_loop env epoch 0 (bs @ [b]) st) =
        out st @ map (\<lambda>k. train_line (epoch + 1) (batch_size env) (200 * k + 200)
                              (window_mean (ls @ [l]) k)) [0..<k0]"
      by (simp only: ih_out earlier)
    have "loss_sum (train_loop env epoch 0 (bs @ [b]) st) = loss_sum s + l"
      using False by (simp add: run train_batch_loss_sum l_def)
    then have "loss_sum (train_loop env epoch 0 (bs @ [b]) st) =
        sum_list (drop (200 * k0) (ls @ [l]))"
      using le by (simp add: ih_sum)
    then show ?thesis
      using o by (simp only: losses k1)
  qed
qed

lemma train_losses_take:
  "train_losses env epoch 0 (take n bs) st = take n (train_losses env epoch 0 bs st)"
proof (cases "n \<le> length bs")
  case True
  have "train_losses env epoch 0 (take n bs @ drop n bs) st =
          train_losses env epoch 0 (take n bs) st @
          train_losses env epoch (0 + length (take n bs)) (drop n bs)
            (train_loop env epoch 0 (take n bs) st)"
    by (rule train_losses_append)
  then have "train_losses env epoch 0 bs st =
          train_losses env epoch 0 (take n bs) st @
          train_losses env epoch (0 + length (take n bs)) (drop n bs)
            (train_loop env epoch 0 (take n bs) st)"
    by simp
  moreover have "length (train_losses env epoch 0 (take n bs) st) = n"
    using True by simp
  ultimately show ?thesis
    by (metis append_eq_conv_conj)
next
  case False
  then show ?thesis by simp
qed

lemma train_losses_nth:
  assumes "i < length bs"
  shows "train_losses env epoch 0 bs st ! i =
         temp_loss_of env (training st) (data (train_loop env epoch 0 (take i bs) st)) (bs ! i)"
proof -
  have split: "bs = take i bs @ bs ! i # drop (Suc i) bs"
    using assms by (simp add: id_take_nth_drop)
  have "train_losses env epoch 0 (take i bs @ bs ! i # drop (Suc i) bs) st ! i =
        temp_loss_of env (training st) (data (train_loop env epoch 0 (take i bs) st)) (bs ! i)"
    using assms by (simp add: train_losses_append nth_append)
  with split show ?thesis by simp
qed

lemma train_loop_take_Suc:
  assumes "i < length bs"
  shows "train_loop env epoch 0 (take (Suc i) bs) st =
         train_batch env epoch i (bs ! i) (train_loop env epoch 0 (take i bs) st)"
  using assms by (simp add: take_Suc_conv_app_nth train_loop_append)

lemma window_sum_closed:
  fixes ls :: "pyfloat list"
  assumes "i < length ls" "i mod 200 = 199"
  shows "sum_list (drop (200 * (i div 200)) (take i ls)) + ls ! i =
         sum_list (take 200 (drop (Suc i - 200) ls))"
proof -
  have d: "200 * (i div 200) = Suc i - 200"
    using window_full [OF assms(2)] by simp
  have len: "length (take i ls) = i" using assms(1) by simp
  have "sum_list (drop (200 * (i div 200)) (take i ls)) + ls ! i =
        sum_list (take 200 (drop (200 * (i div 200)) (take i ls @ [ls ! i])))"
    using window_step_report [of "take i ls" "ls ! i"] assms(2) len by simp
  also have "take i ls @ [ls ! i] = take (Suc i) ls"
    using assms(1) by (simp add: take_Suc_conv_app_nth)
  also have "take 200 (drop (200 * (i div 200)) (take (Suc i) ls)) =
             take 200 (drop (Suc i - 200) ls)"
    using window_full [OF assms(2)] by (simp add: d drop_take)
  finally show ?thesis .
qed

section \<open>The small instance\<close>

lemma toy_temp_loss [simp]:
  "temp_loss_of (toy_env tr te n) t w b = (if inputs b < 0 then NaN else Finite (inputs b))"
  by (simp add: temp_loss_of_def toy_env_def toy_loss_def)

lemma sum_list_Finite: "sum_list (map Finite xs) = Finite (sum_list xs)"
  by (induction xs) (simp_all add: zero_pyfloat_def)

lemma sum_list_replicate_Finite: "sum_list (replicate n (Finite a)) = Finite (real n * a)"
  by (induction n) (simp_all add: zero_pyfloat_def algebra_simps)

lemma toy_train_losses:
  "train_losses (toy_env tr te n) epoch idx bs st =
     map (\<lambda>b. if inputs b < 0 then NaN else Finite (inputs b)) bs"
  by (induction bs arbitrary: idx st) simp_all

lemma out_fresh: "out (fresh w) = []"
  by (simp add: fresh_def)

lemma toy_fields [simp]:
  "trainloader (toy_env tr te n) e = map (\<lambda>x. \<lparr>inputs = x, class_ids = [0]\<rparr>) tr"
  "testloader (toy_env tr te n) e = map (\<lambda>x. \<lparr>inputs = x, class_ids = [0]\<rparr>) te"
  "test_dataset_len (toy_env tr te n) = n"
  "batch_size (toy_env tr te n) = 4"
  by (simp_all add: toy_env_def)

lemma toy_correct: "0 \<le> x \<Longrightarrow> correct_of (toy_env tr te n) t w \<lparr>inputs = x, class_ids = [0]\<rparr> = 1"
  by (simp add: correct_of_def toy_env_def num_correct_def argmax_def)

section \<open>Claims about the loop\<close>

lemma train_first_epoch:
  "0 < num_epochs \<Longrightarrow>
   train env num_epochs st =
     (case run_epoch env 0 st of
        Inl x \<Rightarrow> Inl x
      | Inr st' \<Rightarrow> train_epochs env [Suc 0..<num_epochs] st')"
  by (simp add: train_def upt_conv_Cons)

text \<open>
  C10. If the validation loader yields exactly one batch, the validation loop leaves the
  index at 0, the averaging \<^verbatim>\<open>val_loss /= i\<close> divides by that index and raises
  ZeroDivisionError, and the epoch ends with that exception although the partition is
  not empty; a run of one or more epochs whose first validation traversal is such ends
  there, with that exception.
\<close>

theorem single_batch_divides_by_zero:
  assumes "testloader env epoch = [b]"
  shows "loop_i (fst (val_pass env epoch (train_pass env epoch st))) = Some 0 \<and>
    average_val_loss (loop_i (fst (val_pass env epoch (train_pass env epoch st))))
      (fst (snd (val_pass env epoch (train_pass env epoch st)))) = Inl ZeroDivisionError \<and>
    run_epoch env epoch st =
      Inl (ZeroDivisionError, fst (val_pass env epoch (train_pass env epoch st))) \<and>
    (epoch = 0 \<and> 0 < num_epochs \<longrightarrow>
       train env num_epochs st =
         Inl (ZeroDivisionError, fst (val_pass env 0 (train_pass env 0 st))))"
proof -
  have e: "run_epoch env epoch st =
      Inl (ZeroDivisionError, fst (val_pass env epoch (train_pass env epoch st)))"
    using assms by (simp add: val_pass_eq run_epoch_def epoch_end_def average_val_loss_def)
  then have "epoch = 0 \<and> 0 < num_epochs \<longrightarrow>
       train env num_epochs st =
         Inl (ZeroDivisionError, fst (val_pass env 0 (train_pass env 0 st)))"
    by (auto simp: train_first_epoch)
  with e assms show ?thesis
    by (simp add: val_pass_eq average_val_loss_def)
qed

theorem single_batch_divides_by_zero_witness:
  "testloader (toy_env [1, 2] [3] 4) 0 = [\<lparr>inputs = 3, class_ids = [0]\<rparr>] \<and>
   raised (run_epoch (toy_env [1, 2] [3] 4) 0 (fresh (\<lambda>_. 0))) = Some ZeroDivisionError \<and>
   raised (train (toy_env [1, 2] [3] 4) 4 (fresh (\<lambda>_. 0))) = Some ZeroDivisionError"
proof -
  have h: "testloader (toy_env [1, 2] [3] 4) 0 = [\<lparr>inputs = 3, class_ids = [0]\<rparr>]"
    by simp
  show ?thesis
    using single_batch_divides_by_zero [OF h, of "fresh (\<lambda>_. 0)" 4] h
    by (simp add: raised_def)
qed

text \<open>
  C7. In the training pass of an epoch, the step at batch index \<open>i\<close> is the loop body
  applied to the state after the first \<open>i\<close> batches; its loss is computed in training
  mode from the parameter values of that moment. When \<open>i + 1\<close> is a multiple of 200
  the step prints one line carrying the sum of the last 200 losses divided by 200 and
  leaves the window sum at zero; otherwise it prints nothing and adds its loss to the
  window sum. The training pass is that loop run over all the batches, so what it adds to
  the output is one such line for every full window of 200 batches, in order.
\<close>

theorem window_report_every_200:
  assumes "i < length (trainloader env epoch)"
  shows "let bs = trainloader env epoch;
             st0 = (set_train st)\<lparr>loss_sum := 0\<rparr>;
             ls = train_losses env epoch 0 bs st0;
             before = train_loop env epoch 0 (take i bs) st0;
             after = train_loop env epoch 0 (take (Suc i) bs) st0
         in after = train_batch env epoch i (bs ! i) before \<and>
            ls ! i = loss env (forward env True (data before) (inputs (bs ! i))) (class_ids (bs ! i)) \<and>
            (if Suc i mod 200 = 0
             then out after = out before @
                    [train_line (epoch + 1) (batch_size env) (i + 1)
                       (float_div (sum_list (take 200 (drop (Suc i - 200) ls))) 200)] \<and>
                  loss_sum after = 0
             else out after = out before \<and> loss_sum after = loss_sum before + ls ! i) \<and>
            train_pass env epoch st = train_loop env epoch 0 bs st0 \<and>
            out (train_pass env epoch st) =
              out st @
              map (\<lambda>k. train_line (epoch + 1) (batch_size env) (200 * k + 200)
                         (float_div (sum_list (take 200 (drop (200 * k) ls))) 200))
                  [0..<length bs div 200]"
proof -
  define bs where "bs = trainloader env epoch"
  define st0 where "st0 = (set_train st)\<lparr>loss_sum := 0\<rparr>"
  define ls where "ls = train_losses env epoch 0 bs st0"
  define before where "before = train_loop env epoch 0 (take i bs) st0"
  define after where "after = train_loop env epoch 0 (take (Suc i) bs) st0"
  have i: "i < length bs" using assms by (simp add: bs_def)
  have z: "loss_sum st0 = 0" and tr: "training st0 = True"
    by (simp_all add: st0_def set_train_def)
  have step: "after = train_batch env epoch i (bs ! i) before"
    by (simp add: after_def before_def train_loop_take_Suc [OF i])
  have l: "ls ! i = temp_loss_of env True (data before) (bs ! i)"
    by (simp add: ls_def before_def train_losses_nth [OF i] tr)
  have trb: "training before = True" by (simp add: before_def tr)
  have sum_before: "loss_sum before = sum_list (drop (200 * (i div 200)) (take i ls))"
    using train_loop_report [OF z, of env epoch "take i bs"] i
    by (simp add: before_def ls_def train_losses_take min_def)
  have report: "Suc i mod 200 = 0 \<Longrightarrow>
      out after = out before @
        [train_line (epoch + 1) (batch_size env) (i + 1)
           (float_div (sum_list (take 200 (drop (Suc i - 200) ls))) 200)] \<and> loss_sum after = 0"
  proof -
    assume "Suc i mod 200 = 0"
    then have m: "i mod 200 = 199" by (simp add: mod_Suc split: if_splits)
    have "i < length ls" using i by (simp add: ls_def)
    from window_sum_closed [OF this m]
    have "loss_sum before + ls ! i = sum_list (take 200 (drop (Suc i - 200) ls))"
      by (simp add: sum_before)
    then show ?thesis
      using m by (simp add: step train_batch_out train_batch_loss_sum trb l [symmetric])
  qed
  have quiet: "Suc i mod 200 \<noteq> 0 \<Longrightarrow>
      out after = out before \<and> loss_sum after = loss_sum before + ls ! i"
  proof -
    assume "Suc i mod 200 \<noteq> 0"
    then have m: "i mod 200 \<noteq> 199" by (simp add: mod_Suc split: if_splits)
    then show ?thesis
      by (simp add: step train_batch_out train_batch_loss_sum trb l [symmetric])
  qed
  have l': "ls ! i = loss env (forward env True (data before) (inputs (bs ! i))) (class_ids (bs ! i))"
    using l by (simp add: temp_loss_of_def)
  have "after = train_batch env epoch i (bs ! i) before \<and>
        ls ! i = loss env (forward env True (data before) (inputs (bs ! i))) (class_ids (bs ! i)) \<and>
        (if Suc i mod 200 = 0
         then out after = out before @
                [train_line (epoch + 1) (batch_size env) (i + 1)
                   (float_div (sum_list (take 200 (drop (Suc i - 200) ls))) 200)] \<and>
              loss_sum after = 0
         else out after = out before \<and> loss_sum after = loss_sum before + ls ! i)"
  proof (cases "Suc i mod 200 = 0")
    case True
    from report [OF True] step l' True show ?thesis by (simp only: if_True simp_thms)
  next
    case False
    from quiet [OF False] step l' False show ?thesis by (simp only: if_False simp_thms)
  qed
  moreover have pass: "train_pass env epoch st = train_loop env epoch 0 bs st0"
    by (simp add: train_pass_def bs_def st0_def)
  moreover have "out (train_pass env epoch st) =
      out st @
      map (\<lambda>k. train_line (epoch + 1) (batch_size env) (200 * k + 200)
                 (float_div (sum_list (take 200 (drop (200 * k) ls))) 200))
          [0..<length bs div 200]"
  proof -
    have "out st0 = out st" by (simp add: st0_def set_train_def)
    with train_loop_report [OF z, of env epoch bs, THEN conjunct1]
    show ?thesis by (simp only: pass ls_def window_mean_def)
  qed
  ultimately have "after = train_batch env epoch i (bs ! i) before \<and>
        ls ! i = loss env (forward env True (data before) (inputs (bs ! i))) (class_ids (bs ! i)) \<and>
        (if Suc i mod 200 = 0
         then out after = out before @
                [train_line (epoch + 1) (batch_size env) (i + 1)
                   (float_div (sum_list (take 200 (drop (Suc i - 200) ls))) 200)] \<and>
              loss_sum after = 0
         else out after = out before \<and> loss_sum after = loss_sum before + ls ! i) \<and>
        train_pass env epoch st = train_loop env epoch 0 bs st0 \<and>
        out (train_pass env epoch st) =
          out st @
          map (\<lambda>k. train_line (epoch + 1) (batch_size env) (200 * k + 200)
                     (float_div (sum_list (take 200 (drop (200 * k) ls))) 200))
              [0..<length bs div 200]"
    by (intro conjI) (erule conjunct1 conjunct2 | drule conjunct2)+
  then show ?thesis
    unfolding Let_def after_def before_def ls_def st0_def bs_def .
qed

theorem window_report_every_200_witness:
  "199 < length (trainloader (toy_env (replicate 200 1) [] 0) 0) \<and>
   out (train_loop (toy_env (replicate 200 1) [] 0) 0 0
          (take 200 (trainloader (toy_env (replicate 200 1) [] 0) 0))
          ((set_train (fresh (\<lambda>_. 0)))\<lparr>loss_sum := 0\<rparr>)) =
   out (train_loop (toy_env (replicate 200 1) [] 0) 0 0
          (take 199 (trainloader (toy_env (replicate 200 1) [] 0) 0))
          ((set_train (fresh (\<lambda>_. 0)))\<lparr>loss_sum := 0\<rparr>)) @
     [''| epoch: 1 |   4*  200 images | loss = 1.000''] \<and>
   loss_sum (train_loop (toy_env (replicate 200 1) [] 0) 0 0
          (take 200 (trainloader (toy_env (replicate 200 1) [] 0) 0))
          ((set_train (fresh (\<lambda>_. 0)))\<lparr>loss_sum := 0\<rparr>)) = 0 \<and>
   out (train_pass (toy_env (replicate 200 1) [] 0) 0 (fresh (\<lambda>_. 0))) =
     [''| epoch: 1 |   4*  200 images | loss = 1.000'']"
proof -
  have h: "199 < length (trainloader (toy_env (replicate 200 1) [] 0) 0)"
    by simp
  have line: "train_line (Suc 0) 4 200 (Finite 1) = ''| epoch: 1 |   4*  200 images | loss = 1.000''"
    by (simp add: fmt_eval)
  have bsz: "batch_size (toy_env (replicate 200 1) [] 0) = 4"
    by simp
  have ls: "sum_list (take 200
      (train_losses (toy_env (replicate 200 1) [] 0) 0 0
         (trainloader (toy_env (replicate 200 1) [] 0) 0)
         ((set_train (fresh (\<lambda>_. 0)))\<lparr>loss_sum := 0\<rparr>))) = Finite 200"
    by (simp add: toy_train_losses comp_def sum_list_replicate_Finite)
  have ls0: "sum_list (take 200 (drop (200 * 0)
      (train_losses (toy_env (replicate 200 1) [] 0) 0 0
         (trainloader (toy_env (replicate 200 1) [] 0) 0)
         ((set_train (fresh (\<lambda>_. 0)))\<lparr>loss_sum := 0\<rparr>)))) = Finite 200"
    by (simp add: toy_train_losses comp_def sum_list_replicate_Finite)
  have c: "Suc 199 mod 200 = (0::nat)"
    by simp
  note t = window_report_every_200 [OF h, of "fresh (\<lambda>_. 0)", unfolded Let_def,
      THEN conjunct2, THEN conjunct2]
  have len: "length (trainloader (toy_env (replicate 200 1) [] 0) 0) div 200 = Suc 0"
    by simp
  from t [THEN conjunct2, THEN conjunct2]
  have whole: "out (train_pass (toy_env (replicate 200 1) [] 0) 0 (fresh (\<lambda>_. 0))) =
     [''| epoch: 1 |   4*  200 images | loss = 1.000'']"
    by (simp add: ls ls0 line bsz len out_fresh del: toy_fields)
  from t [THEN conjunct1] c
  have step: "out (train_loop (toy_env (replicate 200 1) [] 0) 0 0
          (take 200 (trainloader (toy_env (replicate 200 1) [] 0) 0))
          ((set_train (fresh (\<lambda>_. 0)))\<lparr>loss_sum := 0\<rparr>)) =
   out (train_loop (toy_env (replicate 200 1) [] 0) 0 0
          (take 199 (trainloader (toy_env (replicate 200 1) [] 0) 0))
          ((set_train (fresh (\<lambda>_. 0)))\<lparr>loss_sum := 0\<rparr>)) @
     [''| epoch: 1 |   4*  200 images | loss = 1.000''] \<and>
   loss_sum (train_loop (toy_env (replicate 200 1) [] 0) 0 0
          (take 200 (trainloader (toy_env (replicate 200 1) [] 0) 0))
          ((set_train (fresh (\<lambda>_. 0)))\<lparr>loss_sum := 0\<rparr>)) = 0"
    by (simp add: ls line bsz del: toy_fields)
  from h step whole show ?thesis by simp
qed

text \<open>
  C9. The validation pass of an epoch changes no parameter value, no gradient and no
  optimizer state, and prints nothing: it only sums the batch losses, computed in
  evaluation mode from the values the training pass left, and counts the examples whose
  label is the index of the first maximal score of their row. However the epoch ends, its
  final state holds the parameters, gradients and optimizer state of the end of its
  training pass.
\<close>

theorem validation_pass_only_accumulates:
  "data (fst (val_pass env epoch st)) = data st \<and>
   grad (fst (val_pass env epoch st)) = grad st \<and>
   adam (fst (val_pass env epoch st)) = adam st \<and>
   out (fst (val_pass env epoch st)) = out st \<and>
   fst (snd (val_pass env epoch st)) =
     (\<Sum>b\<leftarrow>testloader env epoch.
        loss env (forward env False (data st) (inputs b)) (class_ids b)) \<and>
   count_val (snd (snd (val_pass env epoch st))) =
     (\<Sum>b\<leftarrow>testloader env epoch.
        length (filter (\<lambda>(row, c). argmax row = c)
                  (zip (forward env False (data st) (inputs b)) (class_ids b)))) \<and>
   (\<forall>row. row \<noteq> [] \<longrightarrow>
      argmax row < length row \<and> (\<forall>x\<in>set row. x \<le> row ! argmax row)) \<and>
   data (final_state (run_epoch env epoch st)) = data (train_pass env epoch st) \<and>
   grad (final_state (run_epoch env epoch st)) = grad (train_pass env epoch st) \<and>
   adam (final_state (run_epoch env epoch st)) = adam (train_pass env epoch st)"
proof -
  have sums: "fst (snd (val_pass env epoch st)) =
     (\<Sum>b\<leftarrow>testloader env epoch.
        loss env (forward env False (data st) (inputs b)) (class_ids b))"
    "count_val (snd (snd (val_pass env epoch st))) =
     (\<Sum>b\<leftarrow>testloader env epoch.
        length (filter (\<lambda>(row, c). argmax row = c)
                  (zip (forward env False (data st) (inputs b)) (class_ids b))))"
    by (simp_all add: val_pass_eq temp_loss_of_def correct_of_def num_correct_def)
  have fin: "data (final_state (run_epoch env epoch st)) = data (train_pass env epoch st)"
    "grad (final_state (run_epoch env epoch st)) = grad (train_pass env epoch st)"
    "adam (final_state (run_epoch env epoch st)) = adam (train_pass env epoch st)"
    by (simp_all add: run_epoch_final val_pass_frame split: sum.splits)
  show ?thesis
    using sums fin argmax_first_max by (simp add: val_pass_frame)
qed

theorem validation_pass_only_accumulates_witness:
  "data (fst (val_pass (toy_env [1] [1, 2] 2) 0 (fresh (\<lambda>_. 7)))) = (\<lambda>_. 7) \<and>
   fst (snd (val_pass (toy_env [1] [1, 2] 2) 0 (fresh (\<lambda>_. 7)))) = Finite 3 \<and>
   count_val (snd (snd (val_pass (toy_env [1] [1, 2] 2) 0 (fresh (\<lambda>_. 7))))) = 2 \<and>
   [1, 3, 2 :: real] \<noteq> [] \<and> argmax [1, 3, 2] < length [1, 3, 2 :: real] \<and>
   (1 :: real) \<le> [1, 3, 2] ! argmax [1, 3, 2]"
proof -
  note t = validation_pass_only_accumulates [of "toy_env [1] [1, 2] 2" 0 "fresh (\<lambda>_. 7)"]
  have row: "[1, 3, 2 :: real] \<noteq> []" by simp
  from t have "argmax [1, 3, 2] < length [1, 3, 2 :: real] \<and>
      (\<forall>x\<in>set [1, 3, 2 :: real]. x \<le> [1, 3, 2] ! argmax [1, 3, 2])"
    using row by blast
  moreover from t have "fst (snd (val_pass (toy_env [1] [1, 2] 2) 0 (fresh (\<lambda>_. 7)))) = Finite 3"
    by (simp add: toy_env_def toy_loss_def zero_pyfloat_def)
  moreover from t have
    "count_val (snd (snd (val_pass (toy_env [1] [1, 2] 2) 0 (fresh (\<lambda>_. 7))))) = 2"
    by (simp add: toy_env_def argmax_def)
  moreover from t have
    "data (fst (val_pass (toy_env [1] [1, 2] 2) 0 (fresh (\<lambda>_. 7)))) = (\<lambda>_. 7)"
    by (simp add: fresh_def)
  ultimately show ?thesis by simp
qed

text \<open>
  C1, at two validation batches with losses 1 and 2: the code divides their sum by the
  last index 1 and reports 3.000, where the sum divided by the number of batches is
  1.500.
\<close>

theorem validation_average_two_batches:
  "raised (run_epoch (toy_env [] [1, 2] 2) 0 (fresh (\<lambda>_. 0))) = None \<and>
   out (final_state (run_epoch (toy_env [] [1, 2] 2) 0 (fresh (\<lambda>_. 0)))) =
     [''\<newline> | Test loss = 3.000 | Test accuracy = 100% \<newline>''] \<and>
   fmt_fixed 3 ((1 + 2) / 2) = ''1.500''"
  by (simp add: run_epoch_def val_pass_eq epoch_end_def average_val_loss_def accuracy_text_def
      toy_correct train_pass_def set_eval_def set_train_def fresh_def fmt_eval raised_def
      final_state_def)

text \<open>
  C6, at two training batches and an empty validation partition (no batch, no example).
  The validation loop never assigns the index, so the averaging divides by the value the
  training loop left, 1, where the number of validation batches is 0: it returns 0.0 and
  raises nothing. The epoch then stops one statement later, at the accuracy quotient.
\<close>

theorem empty_validation_average_stale_index:
  "testloader (toy_env [1, 2] [] 0) 0 = [] \<and>
   loop_i (fst (val_pass (toy_env [1, 2] [] 0) 0
        (train_pass (toy_env [1, 2] [] 0) 0 (fresh (\<lambda>_. 0))))) = Some 1 \<and>
   average_val_loss
     (loop_i (fst (val_pass (toy_env [1, 2] [] 0) 0
        (train_pass (toy_env [1, 2] [] 0) 0 (fresh (\<lambda>_. 0))))))
     (fst (snd (val_pass (toy_env [1, 2] [] 0) 0
        (train_pass (toy_env [1, 2] [] 0) 0 (fresh (\<lambda>_. 0)))))) = Inr (Finite 0) \<and>
   accuracy_text
     (snd (snd (val_pass (toy_env [1, 2] [] 0) 0
        (train_pass (toy_env [1, 2] [] 0) 0 (fresh (\<lambda>_. 0))))))
     (test_dataset_len (toy_env [1, 2] [] 0)) = Inl ZeroDivisionError"
  by (simp add: val_pass_eq set_eval_def train_pass_def train_loop_loop_i average_val_loss_def
      accuracy_text_def zero_pyfloat_def)

section \<open>The text the loop prints\<close>

lemma train_loop_out_lines:
  "\<exists>ls. out (train_loop env epoch idx bs st) = out st @ ls \<and>
        (\<forall>line\<in>set ls. \<exists>n v. line = train_line (epoch + 1) (batch_size env) n v \<and>
                                 n mod 200 = 0 \<and> idx < n \<and> n \<le> idx + length bs)"
proof (induction bs arbitrary: idx st)
  case Nil
  show ?case by simp
next
  case (Cons b bs)
  obtain ls where ls: "out (train_loop env epoch (Suc idx) bs (train_batch env epoch idx b st)) =
        out (train_batch env epoch idx b st) @ ls"
    and form: "\<forall>line\<in>set ls. \<exists>n v. line = train_line (epoch + 1) (batch_size env) n v \<and>
                                 n mod 200 = 0 \<and> Suc idx < n \<and> n \<le> Suc idx + length bs"
    using Cons.IH [of "Suc idx" "train_batch env epoch idx b st"] by blast
  have form': "\<forall>line\<in>set ls. \<exists>n v. line = train_line (epoch + 1) (batch_size env) n v \<and>
                                 n mod 200 = 0 \<and> idx < n \<and> n \<le> idx + length (b # bs)"
  proof
    fix line assume "line \<in> set ls"
    with form have "\<exists>n v. line = train_line (epoch + 1) (batch_size env) n v \<and>
        n mod 200 = 0 \<and> Suc idx < n \<and> n \<le> Suc idx + length bs"
      by (rule bspec)
    then obtain n v where "line = train_line (epoch + 1) (batch_size env) n v"
      "n mod 200 = 0" "Suc idx < n" "n \<le> Suc idx + length bs" by auto
    then show "\<exists>n v. line = train_line (epoch + 1) (batch_size env) n v \<and>
                                 n mod 200 = 0 \<and> idx < n \<and> n \<le> idx + length (b # bs)"
      by (intro exI [of _ n] exI [of _ v]) simp
  qed
  show ?case
  proof (cases "idx mod 200 = 199")
    case True
    define l where "l = train_line (epoch + 1) (batch_size env) (idx + 1)
                       (float_div (loss_sum st + temp_loss_of env (training st) (data st) b) 200)"
    have m: "(idx + 1) mod 200 = 0" using True by (simp add: mod_Suc)
    have o: "out (train_loop env epoch idx (b # bs) st) = out st @ (l # ls)"
      using True by (simp add: ls train_batch_out l_def)
    have "\<exists>n v. l = train_line (epoch + 1) (batch_size env) n v \<and>
                                 n mod 200 = 0 \<and> idx < n \<and> n \<le> idx + length (b # bs)"
      unfolding l_def using m by (intro exI [of _ "idx + 1"] exI) simp
    with form' have "\<forall>line\<in>set (l # ls). \<exists>n v. line = train_line (epoch + 1) (batch_size env) n v \<and>
                                 n mod 200 = 0 \<and> idx < n \<and> n \<le> idx + length (b # bs)"
      by simp
    with o show ?thesis by blast
  next
    case False
    have "out (train_loop env epoch idx (b # bs) st) = out st @ ls"
      using False by (simp add: ls train_batch_out)
    with form' show ?thesis by blast
  qed
qed

lemma toy_200_out:
  "out (train_pass (toy_env (replicate 200 1) te n) 0 (fresh w)) =
     [''| epoch: 1 |   4*  200 images | loss = 1.000'']"
proof -
  have z: "loss_sum ((set_train (fresh w))\<lparr>loss_sum := 0\<rparr>) = 0" by simp
  have line: "train_line (Suc 0) 4 200 (Finite 1) = ''| epoch: 1 |   4*  200 images | loss = 1.000''"
    by (simp add: fmt_eval)
  have wm: "window_mean (replicate 200 (Finite 1)) 0 = Finite 1"
    by (simp add: window_mean_def sum_list_replicate_Finite)
  from train_loop_report [OF z, of "toy_env (replicate 200 1) te n" 0
      "trainloader (toy_env (replicate 200 1) te n) 0", THEN conjunct1]
  show ?thesis
    by (simp add: train_pass_def toy_train_losses comp_def wm line set_train_def fresh_def)
qed

lemma toy_epoch_out:
  "run_epoch (toy_env [] [1, 2] 2) 0 (fresh w) =
     Inr ((fresh w)\<lparr>training := False, loop_i := Some 1,
            out := [''\<newline> | Test loss = 3.000 | Test accuracy = 100% \<newline>'']\<rparr>)"
  by (simp add: run_epoch_def val_pass_eq epoch_end_def average_val_loss_def accuracy_text_def
      toy_correct train_pass_def set_eval_def set_train_def fresh_def fmt_eval)

text \<open>
  C4 as stated fails. After 200 training batches the line printed is right-aligned in
  its two numeric fields and has no closing bar; the line printed at the end of an epoch
  starts with a line feed and a space and ends with a space and a line feed, with no
  closing bar either.
\<close>

theorem progress_line_form_counterexample:
  "out (train_pass (toy_env (replicate 200 1) [] 0) 0 (fresh (\<lambda>_. 0))) =
     [''| epoch: 1 |   4*  200 images | loss = 1.000''] \<and>
   last ''| epoch: 1 |   4*  200 images | loss = 1.000'' \<noteq> CHR ''|'' \<and>
   out (final_state (run_epoch (toy_env [] [1, 2] 2) 0 (fresh (\<lambda>_. 0)))) =
     [''\<newline> | Test loss = 3.000 | Test accuracy = 100% \<newline>''] \<and>
   hd ''\<newline> | Test loss = 3.000 | Test accuracy = 100% \<newline>'' \<noteq> CHR ''|'' \<and>
   last ''\<newline> | Test loss = 3.000 | Test accuracy = 100% \<newline>'' \<noteq> CHR ''|''"
  by (simp add: toy_200_out toy_epoch_out final_state_def)

lemma digit_char_digit: "d < 10 \<Longrightarrow> digit_char d \<in> set ''0123456789''"
proof -
  assume "d < 10"
  then have "d < length ''0123456789''" by simp
  then show ?thesis unfolding digit_char_def by (rule nth_mem)
qed

lemma dec_digits: "set (dec n) \<subseteq> set ''0123456789''"
proof (induction n rule: dec.induct)
  case (1 n)
  show ?case
  proof (cases "n < 10")
    case True
    then show ?thesis using digit_char_digit [of n] by (subst dec.simps) simp
  next
    case False
    have "n mod 10 < 10" by simp
    then have "digit_char (n mod 10) \<in> set ''0123456789''" by (rule digit_char_digit)
    with False "1.IH" show ?thesis by (subst dec.simps) simp
  qed
qed

lemma dec_nonempty: "dec n \<noteq> []"
  by (subst dec.simps) simp

lemma length_dec: "n < 10 ^ d \<Longrightarrow> 0 < d \<Longrightarrow> length (dec n) \<le> d"
proof (induction n arbitrary: d rule: dec.induct)
  case (1 n)
  show ?case
  proof (cases "n < 10")
    case True
    then show ?thesis using "1.prems" by (subst dec.simps) simp
  next
    case False
    obtain e where d: "d = Suc e" using "1.prems"(2) by (cases d) auto
    have e: "0 < e"
    proof (rule ccontr)
      assume "\<not> 0 < e"
      then have "d = 1" using d by simp
      with "1.prems"(1) False show False by simp
    qed
    have "n div 10 < 10 ^ e"
      using "1.prems"(1) d by (simp add: less_mult_imp_div_less mult.commute)
    from "1.IH" [OF False this e] have "length (dec (n div 10)) \<le> e" .
    with False d show ?thesis by (subst dec.simps) simp
  qed
qed

lemma fmt_fixed_shape:
  "\<exists>sgn ip fp. fmt_fixed d a = sgn @ ip @ (if d = 0 then [] else ''.'' @ fp) \<and>
     (sgn = [] \<or> sgn = ''-'') \<and> ip \<noteq> [] \<and> length fp = d \<and>
     set ip \<subseteq> set ''0123456789'' \<and> set fp \<subseteq> set ''0123456789''"
proof -
  define s where "s = nat (round_half_even (\<bar>a\<bar> * 10 ^ d))"
  define sgn where "sgn = (if a < 0 then ''-'' else [])"
  define ip where "ip = dec (s div 10 ^ d)"
  define fp where "fp = (if d = 0 then [] else lpad d CHR ''0'' (dec (s mod 10 ^ d)))"
  have eq: "fmt_fixed d a = sgn @ ip @ (if d = 0 then [] else ''.'' @ fp)"
    by (simp add: fmt_fixed_def Let_def s_def sgn_def ip_def fp_def)
  have len: "length fp = d"
  proof (cases "d = 0")
    case True
    then show ?thesis by (simp add: fp_def)
  next
    case False
    have "s mod 10 ^ d < 10 ^ d" by simp
    from length_dec [OF this] False have "length (dec (s mod 10 ^ d)) \<le> d" by simp
    with False show ?thesis by (simp add: fp_def lpad_def)
  qed
  have digs: "set ip \<subseteq> set ''0123456789''" "set fp \<subseteq> set ''0123456789''"
    using dec_digits [of "s div 10 ^ d"] dec_digits [of "s mod 10 ^ d"]
    by (auto simp: ip_def fp_def lpad_def)
  have "ip \<noteq> []" by (simp add: ip_def dec_nonempty)
  with eq len digs show ?thesis
    by (intro exI [of _ sgn] exI [of _ ip] exI [of _ fp]) (simp add: sgn_def)
qed

lemma toy_correct_neg:
  "x < 0 \<Longrightarrow> correct_of (toy_env tr te n) t w \<lparr>inputs = x, class_ids = [0]\<rparr> = 0"
  by (simp add: correct_of_def toy_env_def num_correct_def argmax_def)

lemma toy_nan_epoch_out:
  "run_epoch (toy_env [] [- 1, 1] 2) 0 (fresh w) =
     Inr ((fresh w)\<lparr>training := False, loop_i := Some 1,
            out := [''\<newline> | Test loss = nan | Test accuracy = 50% \<newline>'']\<rparr>)"
  by (simp add: run_epoch_def val_pass_eq epoch_end_def average_val_loss_def accuracy_text_def
      toy_correct toy_correct_neg train_pass_def set_eval_def set_train_def fresh_def fmt_eval
      zero_pyfloat_def)

lemma accuracy_text_float:
  assumes "accuracy_text c n = Inr acc"
  shows "\<exists>y. acc = float_text 0 y"
proof (cases "n = 0")
  case True
  with assms obtain k where "c = Tensor k" "acc = (if k = 0 then ''nan'' else ''inf'')"
    by (cases c) (auto simp: accuracy_text_def)
  then have "acc = float_text 0 (if k = 0 then NaN else PosInf)"
    by simp
  then show ?thesis ..
next
  case False
  with assms have "acc = float_text 0 (Finite (100 * real (count_val c) / real n))"
    by (cases c) (auto simp: accuracy_text_def)
  then show ?thesis ..
qed

lemma run_epoch_out:
  assumes "run_epoch env epoch st = Inr st'"
  shows "\<exists>x y. out st' = out (train_pass env epoch st) @ [test_line x (float_text 0 y)]"
proof -
  define r where "r = val_pass env epoch (train_pass env epoch st)"
  obtain s v c where r: "r = (s, v, c)" by (cases r) auto
  have s: "out s = out (train_pass env epoch st)"
    using val_pass_frame(4) [of env epoch "train_pass env epoch st"]
    by (simp add: r_def [symmetric] r)
  from assms obtain line where e: "epoch_end env (loop_i s) v c = Inr line"
    and st': "st' = s\<lparr>out := out s @ [line]\<rparr>"
    by (auto simp: run_epoch_def r_def [symmetric] r split: sum.splits)
  from e obtain avg acc where acc: "accuracy_text c (test_dataset_len env) = Inr acc"
    and line: "line = test_line avg acc"
    by (auto simp: epoch_end_def split: sum.splits)
  from accuracy_text_float [OF acc] obtain y where "acc = float_text 0 y" ..
  with line st' s show ?thesis
    by (intro exI [of _ avg] exI [of _ y]) simp
qed

text \<open>
  C4, amended. Every line the training pass of an epoch adds to the output is
  \<^verbatim>\<open>| epoch: <epoch + 1> | <batch_size, width 3>*<n, width 5> images | loss = <float>\<close>
  with \<open>n\<close> a positive multiple of 200 not beyond the number of batches, and nothing
  after the float; the text printed before stays. An epoch that ends without an
  exception adds one more entry: a line feed, then
  \<^verbatim>\<open> | Test loss = <float> | Test accuracy = <float>% \<close>, then a line feed. A float
  that is finite is printed in fixed point: a minus sign if it is negative, digits, and
  for a loss a point and exactly three digits (for the accuracy no point and no
  decimals); one that is not finite is printed as \<^verbatim>\<open>nan\<close>, \<^verbatim>\<open>inf\<close> or \<^verbatim>\<open>-inf\<close>.
\<close>

theorem progress_line_format:
  "(\<forall>line\<in>set (drop (length (out st)) (out (train_pass env epoch st))).
      \<exists>n x. n mod 200 = 0 \<and> 0 < n \<and> n \<le> length (trainloader env epoch) \<and>
        line = ''| epoch: '' @ dec (epoch + 1) @ '' | '' @
               lpad 3 CHR '' '' (dec (batch_size env)) @ ''*'' @ lpad 5 CHR '' '' (dec n) @
               '' images | loss = '' @ float_text 3 x) \<and>
   take (length (out st)) (out (train_pass env epoch st)) = out st \<and>
   (\<forall>st'. run_epoch env epoch st = Inr st' \<longrightarrow>
      (\<exists>x y. out st' = out (train_pass env epoch st) @
         [''\<newline> | Test loss = '' @ float_text 3 x @ '' | Test accuracy = '' @
          float_text 0 y @ ''% \<newline>''])) \<and>
   (\<forall>d a. float_text d (Finite a) = fmt_fixed d a \<and> float_text d NaN = ''nan'' \<and>
          float_text d PosInf = ''inf'' \<and> float_text d NegInf = ''-inf'') \<and>
   (\<forall>d a. \<exists>sgn ip fp.
      fmt_fixed d a = sgn @ ip @ (if d = 0 then [] else ''.'' @ fp) \<and>
      (sgn = [] \<or> sgn = ''-'') \<and> ip \<noteq> [] \<and> length fp = d \<and>
      set ip \<subseteq> set ''0123456789'' \<and> set fp \<subseteq> set ''0123456789'')"
proof -
  obtain ls where o: "out (train_pass env epoch st) = out st @ ls"
    and form: "\<forall>line\<in>set ls. \<exists>n v. line = train_line (epoch + 1) (batch_size env) n v \<and>
         n mod 200 = 0 \<and> 0 < n \<and> n \<le> 0 + length (trainloader env epoch)"
    using train_loop_out_lines [of env epoch 0 "trainloader env epoch"
        "(set_train st)\<lparr>loss_sum := 0\<rparr>"]
    by (auto simp: train_pass_def set_train_def)
  have a: "\<forall>line\<in>set (drop (length (out st)) (out (train_pass env epoch st))).
      \<exists>n x. n mod 200 = 0 \<and> 0 < n \<and> n \<le> length (trainloader env epoch) \<and>
        line = ''| epoch: '' @ dec (epoch + 1) @ '' | '' @
               lpad 3 CHR '' '' (dec (batch_size env)) @ ''*'' @ lpad 5 CHR '' '' (dec n) @
               '' images | loss = '' @ float_text 3 x"
  proof
    fix line assume "line \<in> set (drop (length (out st)) (out (train_pass env epoch st)))"
    then have "line \<in> set ls" by (simp add: o)
    with form have "\<exists>n v. line = train_line (epoch + 1) (batch_size env) n v \<and>
         n mod 200 = 0 \<and> 0 < n \<and> n \<le> 0 + length (trainloader env epoch)"
      by (rule bspec)
    then obtain n v where "line = train_line (epoch + 1) (batch_size env) n v"
      "n mod 200 = 0" "0 < n" "n \<le> length (trainloader env epoch)" by auto
    then show "\<exists>n x. n mod 200 = 0 \<and> 0 < n \<and> n \<le> length (trainloader env epoch) \<and>
        line = ''| epoch: '' @ dec (epoch + 1) @ '' | '' @
               lpad 3 CHR '' '' (dec (batch_size env)) @ ''*'' @ lpad 5 CHR '' '' (dec n) @
               '' images | loss = '' @ float_text 3 x"
      by (intro exI [of _ n] exI [of _ v]) (simp add: train_line_def)
  qed
  have b: "take (length (out st)) (out (train_pass env epoch st)) = out st"
    by (simp add: o)
  have c: "\<forall>st'. run_epoch env epoch st = Inr st' \<longrightarrow>
      (\<exists>x y. out st' = out (train_pass env epoch st) @
         [''\<newline> | Test loss = '' @ float_text 3 x @ '' | Test accuracy = '' @
          float_text 0 y @ ''% \<newline>''])"
  proof (intro allI impI)
    fix st' assume "run_epoch env epoch st = Inr st'"
    from run_epoch_out [OF this] obtain x y where
      "out st' = out (train_pass env epoch st) @ [test_line x (float_text 0 y)]"
      by blast
    then show "\<exists>x y. out st' = out (train_pass env epoch st) @
         [''\<newline> | Test loss = '' @ float_text 3 x @ '' | Test accuracy = '' @
          float_text 0 y @ ''% \<newline>'']"
      by (intro exI [of _ x] exI [of _ y]) (simp add: test_line_def)
  qed
  have d: "\<forall>d a. float_text d (Finite a) = fmt_fixed d a \<and> float_text d NaN = ''nan'' \<and>
          float_text d PosInf = ''inf'' \<and> float_text d NegInf = ''-inf''"
    by simp
  have e: "\<forall>d a. \<exists>sgn ip fp.
      fmt_fixed d a = sgn @ ip @ (if d = 0 then [] else ''.'' @ fp) \<and>
      (sgn = [] \<or> sgn = ''-'') \<and> ip \<noteq> [] \<and> length fp = d \<and>
      set ip \<subseteq> set ''0123456789'' \<and> set fp \<subseteq> set ''0123456789''"
    using fmt_fixed_shape by blast
  from a b c d e show ?thesis by (intro conjI)
qed

theorem progress_line_format_witness:
  "''| epoch: 1 |   4*  200 images | loss = 1.000'' \<in>
     set (drop (length (out (fresh (\<lambda>_. 0) :: nat state)))
            (out (train_pass (toy_env (replicate 200 1) [] 0) 0 (fresh (\<lambda>_. 0))))) \<and>
   (\<exists>n x. n mod 200 = 0 \<and> 0 < n \<and> n \<le> length (trainloader (toy_env (replicate 200 1) [] 0) 0) \<and>
      ''| epoch: 1 |   4*  200 images | loss = 1.000'' =
        ''| epoch: '' @ dec (0 + 1) @ '' | '' @
        lpad 3 CHR '' '' (dec (batch_size (toy_env (replicate 200 1) [] 0))) @ ''*'' @
        lpad 5 CHR '' '' (dec n) @ '' images | loss = '' @ float_text 3 x) \<and>
   run_epoch (toy_env [] [- 1, 1] 2) 0 (fresh (\<lambda>_. 0)) =
     Inr ((fresh (\<lambda>_. 0))\<lparr>training := False, loop_i := Some 1,
            out := [''\<newline> | Test loss = nan | Test accuracy = 50% \<newline>'']\<rparr>) \<and>
   (\<exists>x y. out ((fresh (\<lambda>_. 0) :: nat state)\<lparr>training := False, loop_i := Some 1,
            out := [''\<newline> | Test loss = nan | Test accuracy = 50% \<newline>'']\<rparr>) =
      out (train_pass (toy_env [] [- 1, 1] 2) 0 (fresh (\<lambda>_. 0))) @
         [''\<newline> | Test loss = '' @ float_text 3 x @ '' | Test accuracy = '' @
          float_text 0 y @ ''% \<newline>''])"
proof -
  have m: "''| epoch: 1 |   4*  200 images | loss = 1.000'' \<in>
     set (drop (length (out (fresh (\<lambda>_. 0) :: nat state)))
            (out (train_pass (toy_env (replicate 200 1) [] 0) 0 (fresh (\<lambda>_. 0)))))"
    by (simp add: toy_200_out out_fresh)
  note t1 = progress_line_format [of "fresh (\<lambda>_. 0)" "toy_env (replicate 200 1) [] 0" 0,
      THEN conjunct1, THEN bspec, OF m]
  note t2 = progress_line_format [of "fresh (\<lambda>_. 0)" "toy_env [] [- 1, 1] 2" 0,
      THEN conjunct2, THEN conjunct2, THEN conjunct1, THEN spec, THEN mp,
      OF toy_nan_epoch_out]
  from m t1 t2 toy_nan_epoch_out [of "\<lambda>_. 0"] show ?thesis
    by (intro conjI)
qed

section \<open>The fine-tuning call: gradients and updates\<close>

lemma fineTune_fields [simp]:
  "parameters (fineTune_env pre env) = TransferNet_parameters pre"
  "opt_params (fineTune_env pre env) = dense_parameters"
  "lr (fineTune_env pre env) = 1 / 1000"
  "set_to_none (fineTune_env pre env) = set_to_none env"
  "gradient (fineTune_env pre env) = gradient env"
  "trainloader (fineTune_env pre env) = trainloader env"
  "testloader (fineTune_env pre env) = testloader env"
  by (simp_all add: fineTune_env_def)

lemma parameters_of_dense [simp]: "parameters_of TransferNet_dense = 6"
  by (simp add: parameters_of_def TransferNet_dense_def)

lemma parameters_of_vgg16 [simp]: "parameters_of vgg16_features = 26"
  by (simp add: parameters_of_def vgg16_features_def)

lemma in_dense [simp]:
  "Pretrained k \<notin> set dense_parameters"
  "Dense k \<in> set dense_parameters \<longleftrightarrow> k < 6"
  by (auto simp: dense_parameters_def)

lemma in_TransferNet [simp]:
  "Pretrained k \<in> set (TransferNet_parameters pre) \<longleftrightarrow> k < parameters_of pre"
  "Dense k \<in> set (TransferNet_parameters pre) \<longleftrightarrow> k < 6"
  by (auto simp: TransferNet_parameters_def)

lemma zero_grad_fields [simp]:
  "training (zero_grad env st) = training st"
  "data (zero_grad env st) = data st"
  "adam (zero_grad env st) = adam st"
  "out (zero_grad env st) = out st"
  "loop_i (zero_grad env st) = loop_i st"
  "loss_sum (zero_grad env st) = loss_sum st"
  by (simp_all add: zero_grad_def)

lemma backward_fields [simp]:
  "training (backward env b st) = training st"
  "data (backward env b st) = data st"
  "adam (backward env b st) = adam st"
  "out (backward env b st) = out st"
  "loop_i (backward env b st) = loop_i st"
  "loss_sum (backward env b st) = loss_sum st"
  by (simp_all add: backward_def)

lemma optimizer_step_fields [simp]:
  "training (optimizer_step env st) = training st"
  "grad (optimizer_step env st) = grad st"
  "out (optimizer_step env st) = out st"
  "loop_i (optimizer_step env st) = loop_i st"
  "loss_sum (optimizer_step env st) = loss_sum st"
  by (simp_all add: optimizer_step_def)

lemma optimizer_step_data:
  "data (optimizer_step env st) p =
     (if p \<in> set (opt_params env)
      then (case grad st p of None \<Rightarrow> data st p
            | Some g \<Rightarrow> snd (adam_rule (lr env) (adam st p) g (data st p)))
      else data st p)"
  by (simp add: optimizer_step_def)

lemma optimizer_step_adam:
  "adam (optimizer_step env st) p =
     (if p \<in> set (opt_params env)
      then (case grad st p of None \<Rightarrow> adam st p
            | Some g \<Rightarrow> Some (fst (adam_rule (lr env) (adam st p) g (data st p))))
      else adam st p)"
  by (simp add: optimizer_step_def)

lemma grad_after_backward:
  "grad (backward env b (zero_grad env st)) p =
     (if p \<in> set (parameters env)
      then Some ((if p \<in> set (opt_params env) then 0
                  else (case grad st p of None \<Rightarrow> 0 | Some a \<Rightarrow> a)) +
                 gradient env (training st) (data st) b p)
      else if p \<in> set (opt_params env)
           then (if set_to_none env then None else map_option (\<lambda>_. 0) (grad st p))
           else grad st p)"
  by (cases "grad st p") (simp_all add: backward_def zero_grad_def)

lemma train_batch_grad:
  "grad (train_batch env epoch idx b st) p = grad (backward env b (zero_grad env st)) p"
  by (simp add: train_batch_def Let_def grad_after_backward)

lemma train_batch_data:
  "data (train_batch env epoch idx b st) p =
     (if p \<in> set (opt_params env)
      then (case grad (backward env b (zero_grad env st)) p of
              None \<Rightarrow> data st p
            | Some g \<Rightarrow> snd (adam_rule (lr env) (adam st p) g (data st p)))
      else data st p)"
  by (simp add: train_batch_def Let_def optimizer_step_data grad_after_backward
      cong: option.case_cong)

lemma train_batch_adam:
  "adam (train_batch env epoch idx b st) p =
     (if p \<in> set (opt_params env)
      then (case grad (backward env b (zero_grad env st)) p of
              None \<Rightarrow> adam st p
            | Some g \<Rightarrow> Some (fst (adam_rule (lr env) (adam st p) g (data st p))))
      else adam st p)"
  by (simp add: train_batch_def Let_def optimizer_step_adam grad_after_backward
      cong: option.case_cong)

lemma train_loop_frozen:
  "p \<notin> set (opt_params env) \<Longrightarrow> data (train_loop env epoch idx bs st) p = data st p"
  by (induction bs arbitrary: idx st) (simp_all add: train_batch_data)

lemma train_pass_frozen:
  "p \<notin> set (opt_params env) \<Longrightarrow> data (train_pass env epoch st) p = data st p"
  by (simp add: train_pass_def train_loop_frozen set_train_def)

lemma run_epoch_data:
  "data (final_state (run_epoch env epoch st)) = data (train_pass env epoch st)"
  by (simp add: run_epoch_final val_pass_frame split: sum.splits)

lemma train_epochs_frozen:
  "p \<notin> set (opt_params env) \<Longrightarrow> data (final_state (train_epochs env es st)) p = data st p"
proof (induction es arbitrary: st)
  case Nil
  show ?case by (simp add: final_state_def)
next
  case (Cons e es)
  show ?case
  proof (cases "run_epoch env e st")
    case (Inl x)
    then have "final_state (train_epochs env (e # es) st) = final_state (run_epoch env e st)"
      by simp
    then show ?thesis
      using Cons.prems by (simp add: run_epoch_data train_pass_frozen)
  next
    case (Inr st')
    then have "data st' p = data st p"
      using run_epoch_data [of env e st] Cons.prems
      by (simp add: final_state_def train_pass_frozen)
    with Inr Cons show ?thesis by simp
  qed
qed

lemma adam_rule_step: "step (fst (adam_rule rate s g p)) = steps_taken s + 1"
  by (simp add: adam_rule_def Let_def steps_taken_def split: option.splits)

lemma train_batch_steps:
  assumes "p \<in> set (opt_params env)" "p \<in> set (parameters env)"
  shows "steps_taken (adam (train_batch env epoch idx b st) p) = steps_taken (adam st p) + 1"
  using assms by (simp add: train_batch_adam grad_after_backward adam_rule_step steps_taken_def)

lemma train_loop_steps:
  assumes "p \<in> set (opt_params env)" "p \<in> set (parameters env)"
  shows "steps_taken (adam (train_loop env epoch idx bs st) p) = steps_taken (adam st p) + length bs"
  using assms by (induction bs arbitrary: idx st) (simp_all add: train_batch_steps)

lemma train_pass_steps:
  assumes "p \<in> set (opt_params env)" "p \<in> set (parameters env)"
  shows "steps_taken (adam (train_pass env epoch st) p) =
         steps_taken (adam st p) + length (trainloader env epoch)"
  using assms by (simp add: train_pass_def train_loop_steps set_train_def)

lemma train_frozen:
  "p \<notin> set (opt_params env) \<Longrightarrow> data (final_state (train env num_epochs st)) p = data st p"
  by (simp add: train_def train_epochs_frozen)

text \<open>
  C3. In the fine-tuning call no parameter of the pretrained block ever changes its
  value: not in one step of the training loop, and not over a whole run of any number of
  epochs, however it ends. Every step of the training loop updates each of the six dense
  parameters: Adam's rule is applied to it with the gradient of the batch, which gives its
  new value and optimizer state and advances its update count by one, so a training pass
  advances the count by the number of batches.
\<close>

theorem frozen_never_updated_dense_every_step:
  "data (final_state (train (fineTune_env pre env) num_epochs st)) (Pretrained k) =
     data st (Pretrained k) \<and>
   data (train_batch (fineTune_env pre env) epoch idx b st) (Pretrained k) =
     data st (Pretrained k) \<and>
   (\<forall>j<6.
      adam (train_batch (fineTune_env pre env) epoch idx b st) (Dense j) =
        Some (fst (adam_rule (1 / 1000) (adam st (Dense j))
                     (gradient env (training st) (data st) b (Dense j)) (data st (Dense j)))) \<and>
      data (train_batch (fineTune_env pre env) epoch idx b st) (Dense j) =
        snd (adam_rule (1 / 1000) (adam st (Dense j))
               (gradient env (training st) (data st) b (Dense j)) (data st (Dense j))) \<and>
      steps_taken (adam (train_batch (fineTune_env pre env) epoch idx b st) (Dense j)) =
        steps_taken (adam st (Dense j)) + 1 \<and>
      steps_taken (adam (train_pass (fineTune_env pre env) epoch st) (Dense j)) =
        steps_taken (adam st (Dense j)) + length (trainloader env epoch))"
proof -
  have frozen: "data (final_state (train (fineTune_env pre env) num_epochs st)) (Pretrained k) =
     data st (Pretrained k)"
    by (rule train_frozen) simp
  have one: "data (train_batch (fineTune_env pre env) epoch idx b st) (Pretrained k) =
     data st (Pretrained k)"
    by (simp add: train_batch_data)
  have dense: "\<forall>j<6.
      adam (train_batch (fineTune_env pre env) epoch idx b st) (Dense j) =
        Some (fst (adam_rule (1 / 1000) (adam st (Dense j))
                     (gradient env (training st) (data st) b (Dense j)) (data st (Dense j)))) \<and>
      data (train_batch (fineTune_env pre env) epoch idx b st) (Dense j) =
        snd (adam_rule (1 / 1000) (adam st (Dense j))
               (gradient env (training st) (data st) b (Dense j)) (data st (Dense j))) \<and>
      steps_taken (adam (train_batch (fineTune_env pre env) epoch idx b st) (Dense j)) =
        steps_taken (adam st (Dense j)) + 1 \<and>
      steps_taken (adam (train_pass (fineTune_env pre env) epoch st) (Dense j)) =
        steps_taken (adam st (Dense j)) + length (trainloader env epoch)"
  proof (intro allI impI)
    fix j :: nat assume j: "j < 6"
    have g: "grad (backward (fineTune_env pre env) b (zero_grad (fineTune_env pre env) st)) (Dense j) =
        Some (gradient env (training st) (data st) b (Dense j))"
      using j by (simp add: grad_after_backward)
    have mem: "Dense j \<in> set (opt_params (fineTune_env pre env))"
      "Dense j \<in> set (parameters (fineTune_env pre env))"
      using j by simp_all
    show "adam (train_batch (fineTune_env pre env) epoch idx b st) (Dense j) =
        Some (fst (adam_rule (1 / 1000) (adam st (Dense j))
                     (gradient env (training st) (data st) b (Dense j)) (data st (Dense j)))) \<and>
      data (train_batch (fineTune_env pre env) epoch idx b st) (Dense j) =
        snd (adam_rule (1 / 1000) (adam st (Dense j))
               (gradient env (training st) (data st) b (Dense j)) (data st (Dense j))) \<and>
      steps_taken (adam (train_batch (fineTune_env pre env) epoch idx b st) (Dense j)) =
        steps_taken (adam st (Dense j)) + 1 \<and>
      steps_taken (adam (train_pass (fineTune_env pre env) epoch st) (Dense j)) =
        steps_taken (adam st (Dense j)) + length (trainloader env epoch)"
      using train_batch_steps [OF mem, of epoch idx b st] train_pass_steps [OF mem, of epoch st] j
      by (simp add: train_batch_adam train_batch_data g)
  qed
  from frozen one dense show ?thesis by blast
qed

lemma toy_fineTune_eval [simp]:
  "trainloader toy_base e = [\<lparr>inputs = 1, class_ids = [0]\<rparr>, \<lparr>inputs = 2, class_ids = [0]\<rparr>]"
  "gradient toy_base = (\<lambda>_ _ _ _. 1)"
  "set_to_none toy_base = True"
  by (simp_all add: toy_base_def)

theorem frozen_never_updated_dense_every_step_witness:
  "data (final_state (train toy_fineTune 1 (fresh (\<lambda>_. 5)))) (Pretrained 0) = 5 \<and>
   (0 :: nat) < 6 \<and>
   steps_taken (adam (train_pass toy_fineTune 0 (fresh (\<lambda>_. 5))) (Dense 0)) = 2"
  using frozen_never_updated_dense_every_step [of vgg16_features toy_base 1 "fresh (\<lambda>_. 5)" 0 0 0
      "\<lparr>inputs = 1, class_ids = [0]\<rparr>"]
  by (simp add: toy_fineTune_def fresh_def steps_taken_def)

text \<open>
  C2 as stated fails: the pretrained parameters still require gradients, so the backward
  pass of the first batch sets the gradient of a pretrained parameter, and since the
  optimizer never clears it, the second batch adds to it, while a dense parameter holds
  the gradient of the last batch only.
\<close>

theorem frozen_gradients_counterexample:
  "grad (fresh (\<lambda>_. 0)) (Pretrained 0) = None \<and>
   grad (backward toy_fineTune \<lparr>inputs = 1, class_ids = [0]\<rparr>
           (zero_grad toy_fineTune (fresh (\<lambda>_. 0)))) (Pretrained 0) = Some 1 \<and>
   grad (train_pass toy_fineTune 0 (fresh (\<lambda>_. 0))) (Pretrained 0) = Some 2 \<and>
   grad (train_pass toy_fineTune 0 (fresh (\<lambda>_. 0))) (Dense 0) = Some 1"
  by (simp add: toy_fineTune_def grad_after_backward train_pass_def train_batch_grad
      train_batch_data fresh_def set_train_def)

text \<open>
  C2, amended. In the fine-tuning call, one step of the training loop (clear, forward,
  backward, update) leaves every dense parameter with exactly the gradient of the batch.
  Clearing does not touch the gradients of the pretrained parameters, and the backward
  pass adds the gradient of the batch to each of them as well; only their values are left
  alone, because the optimizer does not hold them.
\<close>

theorem gradients_after_backward:
  "(\<forall>j<6. grad (train_batch (fineTune_env pre env) epoch idx b st) (Dense j) =
            Some (gradient env (training st) (data st) b (Dense j))) \<and>
   grad (zero_grad (fineTune_env pre env) st) (Pretrained k) = grad st (Pretrained k) \<and>
   (\<forall>k<parameters_of pre. grad (train_batch (fineTune_env pre env) epoch idx b st) (Pretrained k) =
            Some ((case grad st (Pretrained k) of None \<Rightarrow> 0 | Some a \<Rightarrow> a) +
                  gradient env (training st) (data st) b (Pretrained k))) \<and>
   grad (train_batch (fineTune_env pre env) epoch idx b st) =
     grad (backward (fineTune_env pre env) b (zero_grad (fineTune_env pre env) st)) \<and>
   data (train_batch (fineTune_env pre env) epoch idx b st) (Pretrained k) = data st (Pretrained k)"
proof -
  have a: "\<forall>j<6. grad (train_batch (fineTune_env pre env) epoch idx b st) (Dense j) =
            Some (gradient env (training st) (data st) b (Dense j))"
    by (simp add: train_batch_grad grad_after_backward)
  have z: "grad (zero_grad (fineTune_env pre env) st) (Pretrained k) = grad st (Pretrained k)"
    by (simp add: zero_grad_def)
  have c: "\<forall>k<parameters_of pre. grad (train_batch (fineTune_env pre env) epoch idx b st) (Pretrained k) =
            Some ((case grad st (Pretrained k) of None \<Rightarrow> 0 | Some a \<Rightarrow> a) +
                  gradient env (training st) (data st) b (Pretrained k))"
    by (simp add: train_batch_grad grad_after_backward)
  have d: "grad (train_batch (fineTune_env pre env) epoch idx b st) =
     grad (backward (fineTune_env pre env) b (zero_grad (fineTune_env pre env) st))"
    by (rule ext) (rule train_batch_grad)
  have e: "data (train_batch (fineTune_env pre env) epoch idx b st) (Pretrained k) =
     data st (Pretrained k)"
    by (simp add: train_batch_data)
  from a z c d e show ?thesis by blast
qed

theorem gradients_after_backward_witness:
  "(0 :: nat) < 6 \<and> (0 :: nat) < parameters_of vgg16_features \<and>
   grad (train_batch toy_fineTune 0 0 \<lparr>inputs = 1, class_ids = [0]\<rparr> (fresh (\<lambda>_. 0))) (Dense 0) = Some 1 \<and>
   grad (train_batch toy_fineTune 0 0 \<lparr>inputs = 1, class_ids = [0]\<rparr> (fresh (\<lambda>_. 0))) (Pretrained 0) = Some 1"
proof -
  note t = gradients_after_backward [of vgg16_features toy_base 0 0 "\<lparr>inputs = 1, class_ids = [0]\<rparr>"
      "fresh (\<lambda>_. 0)" 0]
  have h: "(0 :: nat) < 6" "(0 :: nat) < parameters_of vgg16_features" by simp_all
  from t [THEN conjunct1, THEN spec, THEN mp, OF h(1)]
  have a: "grad (train_batch toy_fineTune 0 0 \<lparr>inputs = 1, class_ids = [0]\<rparr>
      (fresh (\<lambda>_. 0))) (Dense 0) = Some 1"
    by (simp add: toy_fineTune_def fresh_def)
  from t [THEN conjunct2, THEN conjunct2, THEN conjunct1, THEN spec, THEN mp, OF h(2)]
  have b: "grad (train_batch toy_fineTune 0 0 \<lparr>inputs = 1, class_ids = [0]\<rparr>
      (fresh (\<lambda>_. 0))) (Pretrained 0) = Some 1"
    by (simp add: toy_fineTune_def fresh_def)
  from h a b show ?thesis by simp
qed

section \<open>Shapes and modes of the two networks\<close>

lemma Net_Seq_convs_shape:
  "sequential_shape Net_Seq_convs [b, 3, 224, 224] = Inr [b, 64, 26, 26]"
  by (simp add: Net_Seq_convs_def)

lemma vgg16_features_shape:
  "sequential_shape vgg16_features [b, 3, 224, 224] = Inr [b, 512, 7, 7]"
  by (simp add: vgg16_features_def)

text \<open>
  C5. For every batch size of at least 1, an input batch of three-channel 224x224
  images passes through both networks without an error and comes out with shape
  (batch size, 10): one row of ten class scores per example.
\<close>

theorem forward_output_shape:
  assumes "1 \<le> b"
  shows "Net_Seq_forward_shape [b, 3, 224, 224] = Inr [b, 10] \<and>
         TransferNet_forward_shape vgg16_features [b, 3, 224, 224] = Inr [b, 10]"
  using assms
  by (simp add: Net_Seq_forward_shape_def TransferNet_forward_shape_def Net_Seq_convs_shape
      vgg16_features_shape view_shape_def Net_Seq_dense_def TransferNet_dense_def)

theorem forward_output_shape_witness:
  "(1 :: nat) \<le> 4 \<and> Net_Seq_forward_shape [4, 3, 224, 224] = Inr [4, 10] \<and>
   TransferNet_forward_shape vgg16_features [4, 3, 224, 224] = Inr [4, 10]"
  using forward_output_shape [of 4] by simp

lemma apply_layer_eval:
  "apply_layer apply_op zeroing False w pos l x = apply_layer apply_op zeroing' False w pos l x"
  by (cases l) (simp_all add: apply_layer_def)

lemma sequential_eval:
  "sequential apply_op zeroing False w pos ls x = sequential apply_op zeroing' False w pos ls x"
proof (induction ls arbitrary: pos x)
  case Nil
  show ?case by simp
next
  case (Cons l ls)
  have "sequential apply_op zeroing False w pos (l # ls) x =
        sequential apply_op zeroing False w (Suc pos) ls (apply_layer apply_op zeroing' False w pos l x)"
    by (simp add: apply_layer_eval [of apply_op zeroing w pos l x zeroing'])
  also have "\<dots> = sequential apply_op zeroing' False w (Suc pos) ls (apply_layer apply_op zeroing' False w pos l x)"
    by (rule Cons.IH)
  finally show ?case by simp
qed

lemma dropout_in_training:
  "Net_Seq_forward (\<lambda>w pos l x. x) (\<lambda>m x. x) (\<lambda>pos x. 0) True () (1 :: real) \<noteq>
   Net_Seq_forward (\<lambda>w pos l x. x) (\<lambda>m x. x) (\<lambda>pos x. 2 * x) True () 1"
  by (simp add: Net_Seq_forward_def Net_Seq_convs_def Net_Seq_dense_def apply_layer_def)

text \<open>
  C8. Setting evaluation mode twice gives the state that setting it once gives. In
  evaluation mode the output of either network is a function of the parameter values and
  the input alone: whatever random zeroing the dropout layers would draw, two calls return
  the same output.
\<close>

theorem eval_mode_idempotent_deterministic:
  "set_eval (set_eval st) = set_eval st \<and>
   training (set_eval st) = False \<and>
   Net_Seq_forward apply_op view zeroing (training (set_eval st)) w x =
     Net_Seq_forward apply_op view zeroing' (training (set_eval st)) w x \<and>
   TransferNet_forward pretrained_layers apply_op view zeroing (training (set_eval st)) w x =
     TransferNet_forward pretrained_layers apply_op view zeroing' (training (set_eval st)) w x"
proof -
  have m: "set_eval (set_eval st) = set_eval st" "training (set_eval st) = False"
    by (simp_all add: set_eval_def)
  have n: "Net_Seq_forward apply_op view zeroing False w x =
     Net_Seq_forward apply_op view zeroing' False w x"
    unfolding Net_Seq_forward_def
    by (simp only: sequential_eval [of apply_op zeroing w _ _ _ zeroing'])
  have t: "TransferNet_forward pretrained_layers apply_op view zeroing False w x =
     TransferNet_forward pretrained_layers apply_op view zeroing' False w x"
    unfolding TransferNet_forward_def
    by (simp only: sequential_eval [of apply_op zeroing w _ _ _ zeroing'])
  from m n t show ?thesis by simp
qed

end
